theory Spec2Isabelle
  imports Main "HOL-Library.AList"
begin

section \<open>Query cache of gstore-cache: data model\<close>

text \<open>
  The repository holds two revisions of the query module. \<^verbatim>\<open>src/lib/queries.js\<close>
  exports \<^verbatim>\<open>cacheQueryEntityKind\<close>, \<^verbatim>\<open>cleanQueriesEntityKind\<close> and \<^verbatim>\<open>wrap\<close>;
  \<^verbatim>\<open>src/unnamed/part_000\<close> exports its own \<^verbatim>\<open>cacheQueryEntityKind\<close>,
  \<^verbatim>\<open>cleanQueriesEntityKind\<close> and \<^verbatim>\<open>get\<close>. Both are embedded; the functions of
  \<^verbatim>\<open>part_000\<close> whose names clash carry the suffix \<open>_p0\<close>.

  Every function of the module is asynchronous and talks to collaborators that are not
  part of it (the cache manager, \<^verbatim>\<open>primeCache\<close>, the fetch handler, the redis client).
  A call is modelled by its outcome together with the list of collaborator calls it made,
  in the order in which the code issues them. The collaborators' answers are fields of the
  \<open>cache\<close> record, so that every theorem holds for any behaviour of theirs; no function
  of the module calls the same collaborator twice, so an answer is a function of the
  arguments of the call.
\<close>

type_synonym key = string

text \<open>A failed call: a rejected promise or a thrown exception, with the error value.\<close>

datatype js_error = Error string | TypeError string

type_synonym 'a outcome = "js_error + 'a"

text \<open>
  JavaScript values as far as the module looks at them: it tests \<^verbatim>\<open>__dsKey__\<close> for
  truthiness and copies values around. \<open>JObj\<close> is any object (a datastore Key, an array,
  a nested record), named by a reference.
\<close>

datatype jsval = JUndefined | JNull | JBool bool | JNum int | JStr string | JObj nat

fun truthy :: "jsval \<Rightarrow> bool" where
  "truthy JUndefined = False"
| "truthy JNull = False"
| "truthy (JBool b) = b"
| "truthy (JNum n) = (n \<noteq> 0)"
| "truthy (JStr s) = (s \<noteq> [])"
| "truthy (JObj r) = True"

text \<open>
  An entity returned by the datastore: its own enumerable string-keyed properties in
  insertion order, and the property stored under the symbol \<^verbatim>\<open>cache.ds.KEY\<close>
  (\<open>None\<close> when the entity has no such property).
\<close>

record entity =
  props :: "(string \<times> jsval) list"
  dsKEY :: "jsval option"

text \<open>Reading a property: a missing one reads as \<^verbatim>\<open>undefined\<close>.\<close>

definition get_prop :: "entity \<Rightarrow> string \<Rightarrow> jsval" where
  "get_prop e name = (case map_of (props e) name of None \<Rightarrow> JUndefined | Some v \<Rightarrow> v)"

definition get_KEY :: "entity \<Rightarrow> jsval" where
  "get_KEY e = (case dsKEY e of None \<Rightarrow> JUndefined | Some k \<Rightarrow> k)"

text \<open>
  The argument of \<^verbatim>\<open>marshalKeys\<close> and \<^verbatim>\<open>unMarshalKeys\<close>: \<^verbatim>\<open>undefined\<close>, one entity, or
  an array of entities. \<^verbatim>\<open>arrify\<close> turns the first into the empty array and the second
  into a one-element array.
\<close>

datatype entities = No_entities | Single entity | Many "entity list"

fun arrify_entities :: "entities \<Rightarrow> entity list" where
  "arrify_entities No_entities = []"
| "arrify_entities (Single e) = [e]"
| "arrify_entities (Many es) = es"

text \<open>\<^verbatim>\<open>Array.isArray(_entities) ? entities : entities[0]\<close>\<close>

fun like_input :: "entities \<Rightarrow> entity list \<Rightarrow> entities" where
  "like_input (Many _) es = Many es"
| "like_input _ [] = No_entities"
| "like_input _ (e # _) = Single e"

subsection \<open>marshalKeys and unMarshalKeys (src/lib/queries.js)\<close>

text \<open>
  \<^verbatim>\<open>Object.assign({}, _entity, { __dsKey__: _entity[cache.ds.KEY] })\<close>: a copy of the
  entity, symbol property included, whose \<^verbatim>\<open>__dsKey__\<close> is overwritten in place or
  appended.
\<close>

definition marshal_entity :: "entity \<Rightarrow> entity" where
  "marshal_entity e = e\<lparr>props := AList.update ''__dsKey__'' (get_KEY e) (props e)\<rparr>"

definition marshalKeys :: "entities \<Rightarrow> entities" where
  "marshalKeys es = like_input es (map marshal_entity (arrify_entities es))"

definition unmarshal_entity :: "entity \<Rightarrow> entity" where
  "unmarshal_entity e =
     (if \<not> truthy (get_prop e ''__dsKey__'') then e
      else e\<lparr>dsKEY := Some (get_prop e ''__dsKey__''),
              props := AList.delete ''__dsKey__'' (props e)\<rparr>)"

definition unMarshalKeys :: "entities \<Rightarrow> entities" where
  "unMarshalKeys es = like_input es (map unmarshal_entity (arrify_entities es))"

section \<open>The cache object and its collaborators\<close>

text \<open>
  A TTL is a number or, with several stores, a function of the store's name (its first
  argument, the cached data, is never read). The function of \<^verbatim>\<open>part_000\<close> reads
  \<^verbatim>\<open>cache.config.ttl.stores[storeName].queries\<close> and so throws a TypeError for a store
  that has no entry.
\<close>

datatype ttl = TtlNum int | TtlFun "string \<Rightarrow> (int option) outcome"

record options =
  opt_ttl :: "ttl option"
  opt_cache :: "bool option"
  opt_cacheManager :: "string option"

definition no_options :: options where
  "no_options = \<lparr>opt_ttl = None, opt_cache = None, opt_cacheManager = None\<rparr>"

text \<open>The redis commands the module queues, and the replies it reads.\<close>

datatype command =
    SADD key key
  | SET key string
  | SETEX key int string
  | SMEMBERS key

datatype reply = Null_reply | Array_reply "string list" | Integer_reply int | Status_reply string

text \<open>
  \<^verbatim>\<open>multi(commands).exec\<close> answers with one reply for each queued command; the direct
  \<^verbatim>\<open>smembers\<close> answers with the members of the set or \<^verbatim>\<open>null\<close>; \<^verbatim>\<open>del\<close> answers with
  the number of keys it removed.
\<close>

record redis_client =
  multi_exec :: "command list \<Rightarrow> (reply list) outcome"
  smembers :: "key \<Rightarrow> (string list option) outcome"
  del :: "key list \<Rightarrow> int outcome"

text \<open>
  A query specification: the entity kinds it targets and its own \<^verbatim>\<open>run\<close> method (the
  outcome of running it). Everything else in it is read by \<^verbatim>\<open>dsQueryToString\<close> only.
\<close>

record 'v query =
  kinds :: "string list"
  run :: "'v outcome"
  details :: string

text \<open>
  The \<^verbatim>\<open>cache\<close> object handed to the module. \<^verbatim>\<open>dsQueryToString\<close> and \<^verbatim>\<open>getTTL\<close> come
  from \<^verbatim>\<open>./utils\<close>, which is not among the sources, and \<^verbatim>\<open>JSON.stringify\<close> is the
  built-in: the three are parameters.
  \<^item> \<open>config_stores\<close>: \<^verbatim>\<open>config.stores\<close>, of which only the length is read;
  \<^item> \<open>config_ttl_stores\<close>: \<^verbatim>\<open>config.ttl.stores\<close> (\<open>None\<close> when undefined), from the name of
    a store to its entry (\<open>None\<close> without one) and to the \<^verbatim>\<open>queries\<close> TTL of the entry
    (\<open>None\<close> when the entry has none);
  \<^item> \<open>config_global\<close>: \<^verbatim>\<open>config.global\<close>, compared with \<^verbatim>\<open>false\<close> only;
  \<^item> \<open>cacheManager_get\<close>: \<^verbatim>\<open>cacheManager.get\<close> (\<open>None\<close> without a cache manager); it
    resolves with the cached value, or with \<^verbatim>\<open>undefined\<close> (\<open>None\<close>) on a miss;
  \<^item> \<open>cacheManagerNoRedis\<close>: the name of the cache manager that leaves the redis store
    out, when there is one.
\<close>

record 'v cache =
  config_cachePrefix_queries :: string
  config_stores :: "string list"
  config_ttl_queries :: int
  config_ttl_stores :: "(string \<Rightarrow> int option option) option"
  config_global :: "bool option"
  cacheManager_get :: "(key \<Rightarrow> options \<Rightarrow> ('v option) outcome) option"
  cacheManagerNoRedis :: "string option"
  redisClient :: "redis_client option"
  primeCache :: "key \<Rightarrow> 'v \<Rightarrow> options \<Rightarrow> 'v outcome"
  dsQueryToString :: "'v query \<Rightarrow> string"
  JSON_stringify :: "'v \<Rightarrow> string"
  getTTL :: "options \<Rightarrow> ttl"

text \<open>The calls a function makes to its collaborators.\<close>

datatype 'v event =
    CacheManager_get key options
  | FetchHandler "'v query"
  | PrimeCache key 'v options
  | Redis_multi "command list"
  | Redis_smembers key
  | Redis_del "key list"

type_synonym ('a, 'v) call = "'a outcome \<times> 'v event list"


section \<open>src/lib/queries.js\<close>

definition queryToString :: "'v cache \<Rightarrow> 'v query \<Rightarrow> key" where
  "queryToString cache query = config_cachePrefix_queries cache @ dsQueryToString cache query"

text \<open>
  The \<^verbatim>\<open>_entityKind\<close> argument: \<^verbatim>\<open>undefined\<close>, one kind, or an array of kinds, and what
  \<^verbatim>\<open>arrify\<close> makes of it.
\<close>

datatype kind_arg = No_kind | One_kind string | Kind_list "string list"

fun arrify_kinds :: "kind_arg \<Rightarrow> string list" where
  "arrify_kinds No_kind = []"
| "arrify_kinds (One_kind k) = [k]"
| "arrify_kinds (Kind_list ks) = ks"

text \<open>\<^verbatim>\<open>query.kinds[0]\<close>, which is \<^verbatim>\<open>undefined\<close> for a query without kinds.\<close>

fun first_kind :: "string list \<Rightarrow> string option" where
  "first_kind [] = None"
| "first_kind (k # _) = Some k"

definition kind_arg_of :: "string option \<Rightarrow> kind_arg" where
  "kind_arg_of k = (case k of None \<Rightarrow> No_kind | Some kind \<Rightarrow> One_kind kind)"

subsection \<open>cacheQueryEntityKind\<close>

text \<open>
  \<open>ttl\<close> is \<^verbatim>\<open>options.ttl\<close> (\<open>None\<close> when the options carry none). The test
  \<^verbatim>\<open>options.ttl ? ... : ...\<close> is JavaScript truthiness: a TTL of 0 takes the
  \<^verbatim>\<open>set\<close> branch, as a missing one does.
\<close>

definition payload_command :: "key \<Rightarrow> int option \<Rightarrow> string \<Rightarrow> command" where
  "payload_command queryKey ttl json =
     (case ttl of
        None \<Rightarrow> SET queryKey json
      | Some t \<Rightarrow> if t \<noteq> 0 then SETEX queryKey t json else SET queryKey json)"

definition cacheQueryEntityKind ::
  "'v cache \<Rightarrow> key \<Rightarrow> 'v \<Rightarrow> kind_arg \<Rightarrow> int option \<Rightarrow> (reply list, 'v) call" where
  "cacheQueryEntityKind cache queryKey val entityKind0 ttl =
     (case redisClient cache of
        None \<Rightarrow> (Inl (Error ''No Redis Client found.''), [])
      | Some client \<Rightarrow>
          (let entityKind = arrify_kinds entityKind0;
               keysSetsQueries = map (\<lambda>kind. config_cachePrefix_queries cache @ kind) entityKind;
               commands = map (\<lambda>keySet. SADD keySet queryKey) keysSetsQueries
                          @ [payload_command queryKey ttl (JSON_stringify cache val)]
           in (multi_exec client commands, [Redis_multi commands])))"

subsection \<open>cleanQueriesEntityKind\<close>

text \<open>
  \<^verbatim>\<open>[...acc, ...members]\<close> spreads one reply: an array gives its elements, a string its
  characters, and a number is not iterable. The exception is thrown inside the
  \<^verbatim>\<open>exec\<close> callback; it is an error outcome here.
\<close>

fun spread :: "reply \<Rightarrow> (string list) outcome" where
  "spread (Array_reply members) = Inr members"
| "spread (Status_reply s) = Inr (map (\<lambda>c. [c]) s)"
| "spread (Integer_reply n) = Inl (TypeError ''members is not iterable'')"
| "spread Null_reply = Inl (TypeError ''members is not iterable'')"

text \<open>The \<^verbatim>\<open>response.reduce\<close> of \<^verbatim>\<open>cleanQueriesEntityKind\<close>, from the accumulator \<open>acc\<close>.\<close>

fun setsMembers :: "string list \<Rightarrow> reply list \<Rightarrow> (string list) outcome" where
  "setsMembers acc [] = Inr acc"
| "setsMembers acc (members # rest) =
     (if members = Null_reply then setsMembers acc rest
      else (case spread members of
              Inl e \<Rightarrow> Inl e
            | Inr ms \<Rightarrow> setsMembers (acc @ ms) rest))"

text \<open>
  \<^verbatim>\<open>Array.from(new Set(xs))\<close>: a Set keeps the first occurrence of every value, in
  insertion order.
\<close>

definition Set_add :: "'a list \<Rightarrow> 'a \<Rightarrow> 'a list" where
  "Set_add s x = (if x \<in> set s then s else s @ [x])"

definition new_Set :: "'a list \<Rightarrow> 'a list" where
  "new_Set xs = foldl Set_add [] xs"

definition cleanQueriesEntityKind :: "'v cache \<Rightarrow> kind_arg \<Rightarrow> (int, 'v) call" where
  "cleanQueriesEntityKind cache entityKinds0 =
     (case redisClient cache of
        None \<Rightarrow> (Inl (Error ''No Redis Client found.''), [])
      | Some client \<Rightarrow>
          (let entityKinds = arrify_kinds entityKinds0;
               setsQueries = map (\<lambda>entityKind. config_cachePrefix_queries cache @ entityKind) entityKinds;
               commands = map SMEMBERS setsQueries
           in (case multi_exec client commands of
                 Inl err \<Rightarrow> (Inl err, [Redis_multi commands])
               | Inr response \<Rightarrow>
                   (case setsMembers [] response of
                      Inl e \<Rightarrow> (Inl e, [Redis_multi commands])
                    | Inr members \<Rightarrow>
                        (let keysToDelete = new_Set (members @ setsQueries)
                         in (del client keysToDelete,
                             [Redis_multi commands, Redis_del keysToDelete]))))))"

subsection \<open>wrap\<close>

text \<open>
  \<^verbatim>\<open>redisOptions.ttl\<close>: \<^verbatim>\<open>options.ttl(null, 'redis')\<close> when \<^verbatim>\<open>options.ttl\<close> is a function,
  \<^verbatim>\<open>options.ttl\<close> itself otherwise.
\<close>

definition redisOptions_ttl :: "options \<Rightarrow> (int option) outcome" where
  "redisOptions_ttl options =
     (case opt_ttl options of
        None \<Rightarrow> Inr None
      | Some (TtlNum n) \<Rightarrow> Inr (Some n)
      | Some (TtlFun f) \<Rightarrow> f ''redis'')"

text \<open>
  \<^verbatim>\<open>Promise.all(cacheHandlers).then(() => Promise.resolve(resultFetched))\<close>: both writes
  are started, the redis one first; the call fails when one of them fails. When both fail
  the model reports the error of the first handler of the array.
\<close>

definition all_then :: "'a outcome \<Rightarrow> 'b outcome \<Rightarrow> 'c \<Rightarrow> 'c outcome" where
  "all_then r1 r2 res =
     (case r1 of
        Inl e \<Rightarrow> Inl e
      | Inr _ \<Rightarrow> (case r2 of Inl e \<Rightarrow> Inl e | Inr _ \<Rightarrow> Inr res))"

text \<open>
  The inner function \<^verbatim>\<open>onResult\<close> of \<^verbatim>\<open>wrap\<close>. A query result is the pair
  \<^verbatim>\<open>[entities, meta]\<close>.
\<close>

definition wrap_onResult ::
  "(entities \<times> 'm) cache \<Rightarrow> (entities \<times> 'm) query
   \<Rightarrow> ((entities \<times> 'm) query \<Rightarrow> (entities \<times> 'm) outcome) \<Rightarrow> options \<Rightarrow> key
   \<Rightarrow> (entities \<times> 'm) option \<Rightarrow> (entities \<times> 'm, entities \<times> 'm) call" where
  "wrap_onResult cache query fetchHandler options queryKey resultCached =
     (case resultCached of
        Some cached \<Rightarrow> (Inr cached, [])
      | None \<Rightarrow>
          (case fetchHandler query of
             Inl e \<Rightarrow> (Inl e, [FetchHandler query])
           | Inr resultFetched \<Rightarrow>
               (case redisClient cache of
                  None \<Rightarrow>
                    (primeCache cache queryKey resultFetched options,
                     [FetchHandler query, PrimeCache queryKey resultFetched options])
                | Some client \<Rightarrow>
                    (case redisOptions_ttl options of
                       Inl e \<Rightarrow> (Inl e, [FetchHandler query])
                     | Inr redis_ttl \<Rightarrow>
                         (let entities = marshalKeys (fst resultFetched);
                              saved = cacheQueryEntityKind cache queryKey
                                        (entities, snd resultFetched)
                                        (kind_arg_of (first_kind (kinds query))) redis_ttl
                          in (case cacheManagerNoRedis cache of
                                None \<Rightarrow>
                                  (all_then (fst saved) (Inr ()) resultFetched,
                                   FetchHandler query # snd saved)
                              | Some noRedis \<Rightarrow>
                                  (let options' = options\<lparr>opt_cacheManager := Some noRedis\<rparr>
                                   in (all_then (fst saved)
                                         (primeCache cache queryKey resultFetched options')
                                         resultFetched,
                                       FetchHandler query # snd saved
                                       @ [PrimeCache queryKey resultFetched options']))))))))"

text \<open>
  \<open>opts\<close> is the options object when the first extra argument is one, \<open>handler\<close> the
  fetch handler when one is passed; without it the query's own \<^verbatim>\<open>run\<close> is called.
\<close>

definition wrap_fetchHandler ::
  "'v query \<Rightarrow> ('v query \<Rightarrow> 'v outcome) option \<Rightarrow> ('v query \<Rightarrow> 'v outcome)" where
  "wrap_fetchHandler query handler = (case handler of Some h \<Rightarrow> h | None \<Rightarrow> (\<lambda>q. run query))"

text \<open>\<^verbatim>\<open>options.ttl = getTTL(cache, options, 'queries')\<close>\<close>

definition wrap_options :: "'v cache \<Rightarrow> options option \<Rightarrow> options" where
  "wrap_options cache opts =
     (let options = (case opts of Some opt \<Rightarrow> opt | None \<Rightarrow> no_options)
      in options\<lparr>opt_ttl := Some (getTTL cache options)\<rparr>)"

text \<open>\<^verbatim>\<open>wrap\<close> reads \<^verbatim>\<open>cache.cacheManager.get\<close> without a guard.\<close>

definition wrap ::
  "(entities \<times> 'm) cache \<Rightarrow> (entities \<times> 'm) query \<Rightarrow> options option
   \<Rightarrow> ((entities \<times> 'm) query \<Rightarrow> (entities \<times> 'm) outcome) option
   \<Rightarrow> (entities \<times> 'm, entities \<times> 'm) call" where
  "wrap cache query opts handler =
     (let fetchHandler = wrap_fetchHandler query handler;
          options = wrap_options cache opts;
          queryKey = queryToString cache query
      in (case cacheManager_get cache of
            None \<Rightarrow> (Inl (TypeError ''cache.cacheManager is undefined''), [])
          | Some cm_get \<Rightarrow>
              (case cm_get queryKey options of
                 Inl e \<Rightarrow> (Inl e, [CacheManager_get queryKey options])
               | Inr resultCached \<Rightarrow>
                   (let res = wrap_onResult cache query fetchHandler options queryKey resultCached
                    in (fst res, CacheManager_get queryKey options # snd res)))))"

section \<open>src/unnamed/part_000\<close>

definition keyToString :: "'v cache \<Rightarrow> 'v query \<Rightarrow> key" where
  "keyToString cache key = config_cachePrefix_queries cache @ dsQueryToString cache key"

text \<open>String concatenation with a kind that may be \<^verbatim>\<open>undefined\<close>.\<close>

definition concat_kind :: "string \<Rightarrow> string option \<Rightarrow> string" where
  "concat_kind prefix kind = prefix @ (case kind of None \<Rightarrow> ''undefined'' | Some k \<Rightarrow> k)"

text \<open>
  This revision takes the kinds as rest arguments, always writes with \<^verbatim>\<open>set\<close> and does
  not test for the redis client: without one, \<^verbatim>\<open>cache.redisClient.multi\<close> throws inside
  the promise executor.
\<close>

definition cacheQueryEntityKind_p0 ::
  "'v cache \<Rightarrow> key \<Rightarrow> 'v \<Rightarrow> string option list \<Rightarrow> (reply list, 'v) call" where
  "cacheQueryEntityKind_p0 cache queryKey val entityKind =
     (let setsQueries = map (concat_kind (config_cachePrefix_queries cache)) entityKind;
          commands = map (\<lambda>s. SADD s queryKey) setsQueries
                     @ [SET queryKey (JSON_stringify cache val)]
      in (case redisClient cache of
            None \<Rightarrow> (Inl (TypeError ''cache.redisClient is undefined''), [])
          | Some client \<Rightarrow> (multi_exec client commands, [Redis_multi commands])))"

text \<open>
  This revision cleans one kind: it reads the set with a direct \<^verbatim>\<open>smembers\<close> and deletes
  \<^verbatim>\<open>[...members, setQueries]\<close>, where \<^verbatim>\<open>arrify\<close> turns \<^verbatim>\<open>null\<close> into the empty array.
\<close>

definition cleanQueriesEntityKind_p0 :: "'v cache \<Rightarrow> string \<Rightarrow> (int, 'v) call" where
  "cleanQueriesEntityKind_p0 cache entityKind =
     (let setQueries = config_cachePrefix_queries cache @ entityKind
      in (case redisClient cache of
            None \<Rightarrow> (Inl (TypeError ''cache.redisClient is undefined''), [])
          | Some client \<Rightarrow>
              (case smembers client setQueries of
                 Inl err \<Rightarrow> (Inl err, [Redis_smembers setQueries])
               | Inr members0 \<Rightarrow>
                   (let members = (case members0 of None \<Rightarrow> [] | Some ms \<Rightarrow> ms);
                        keysToDelete = members @ [setQueries]
                    in (del client keysToDelete,
                        [Redis_smembers setQueries, Redis_del keysToDelete])))))"

text \<open>The arrow function assigned to \<^verbatim>\<open>ttl\<close> when several stores are configured.\<close>

definition stores_ttl_queries :: "'v cache \<Rightarrow> string \<Rightarrow> (int option) outcome" where
  "stores_ttl_queries cache storeName =
     (case config_ttl_stores cache of
        None \<Rightarrow> Inl (TypeError ''cache.config.ttl.stores is undefined'')
      | Some stores \<Rightarrow>
          (case stores storeName of
             None \<Rightarrow> Inl (TypeError ''cache.config.ttl.stores[storeName] is undefined'')
           | Some entry \<Rightarrow> Inr entry))"

text \<open>The local \<^verbatim>\<open>ttl\<close> of \<^verbatim>\<open>get\<close>.\<close>

definition get_ttl :: "'v cache \<Rightarrow> ttl" where
  "get_ttl cache =
     (if 1 < length (config_stores cache) then TtlFun (stores_ttl_queries cache)
      else TtlNum (config_ttl_queries cache))"

text \<open>\<^verbatim>\<open>ttl === -1\<close>: a function is never equal to a number.\<close>

fun is_minus_one :: "ttl \<Rightarrow> bool" where
  "is_minus_one (TtlNum n) = (n = - 1)"
| "is_minus_one (TtlFun f) = False"

text \<open>
  \<^verbatim>\<open>cache.config.ttl.stores && cache.config.ttl.stores.redis &&
  cache.config.ttl.stores.redis.queries\<close>; only its being \<^verbatim>\<open>=== 0\<close> is read.
\<close>

definition ttlQueries :: "'v cache \<Rightarrow> int option" where
  "ttlQueries cache =
     (case config_ttl_stores cache of
        None \<Rightarrow> None
      | Some stores \<Rightarrow> (case stores ''redis'' of None \<Rightarrow> None | Some entry \<Rightarrow> entry))"

text \<open>The inner function \<^verbatim>\<open>onResult\<close> of \<^verbatim>\<open>get\<close>.\<close>

definition get_onResult ::
  "'v cache \<Rightarrow> 'v query \<Rightarrow> ('v query \<Rightarrow> 'v outcome) \<Rightarrow> options \<Rightarrow> key \<Rightarrow> 'v option
   \<Rightarrow> ('v, 'v) call" where
  "get_onResult cache query fetchHandler options queryKey cacheResult =
     (case cacheResult of
        Some cached \<Rightarrow> (Inr cached, [])
      | None \<Rightarrow>
          (case fetchHandler query of
             Inl e \<Rightarrow> (Inl e, [FetchHandler query])
           | Inr fetchResult \<Rightarrow>
               (if redisClient cache \<noteq> None \<and> ttlQueries cache = Some 0
                then (let saved = cacheQueryEntityKind_p0 cache queryKey fetchResult
                                    [first_kind (kinds query)]
                      in (case fst saved of
                            Inl e \<Rightarrow> (Inl e, FetchHandler query # snd saved)
                          | Inr _ \<Rightarrow> (Inr fetchResult, FetchHandler query # snd saved)))
                else (primeCache cache queryKey fetchResult options,
                      [FetchHandler query, PrimeCache queryKey fetchResult options]))))"

text \<open>
  The extra arguments of \<^verbatim>\<open>get\<close>: the fetch handler alone, or the options followed by
  the fetch handler.
\<close>

datatype 'v get_args =
    Handler "'v query \<Rightarrow> 'v outcome"
  | Options_handler options "'v query \<Rightarrow> 'v outcome"

fun args_handler :: "'v get_args \<Rightarrow> ('v query \<Rightarrow> 'v outcome)" where
  "args_handler (Handler h) = h"
| "args_handler (Options_handler opt h) = h"

fun args_options :: "'v get_args \<Rightarrow> options" where
  "args_options (Handler h) = no_options"
| "args_options (Options_handler opt h) = opt"

text \<open>\<^verbatim>\<open>options.ttl = ttl\<close>\<close>

definition get_options :: "'v cache \<Rightarrow> 'v get_args \<Rightarrow> options" where
  "get_options cache args = (args_options args)\<lparr>opt_ttl := Some (get_ttl cache)\<rparr>"

text \<open>The condition under which \<^verbatim>\<open>get\<close> calls the fetch handler at once.\<close>

definition skips_cache :: "'v cache \<Rightarrow> options \<Rightarrow> bool" where
  "skips_cache cache options \<longleftrightarrow>
     cacheManager_get cache = None
     \<or> is_minus_one (get_ttl cache)
     \<or> opt_cache options = Some False
     \<or> (config_global cache = Some False \<and> opt_cache options \<noteq> Some True)"

definition get :: "'v cache \<Rightarrow> 'v query \<Rightarrow> 'v get_args \<Rightarrow> ('v, 'v) call" where
  "get cache query args =
     (let fetchHandler = args_handler args;
          options = get_options cache args
      in (case cacheManager_get cache of
            None \<Rightarrow> (fetchHandler query, [FetchHandler query])
          | Some cm_get \<Rightarrow>
              (if skips_cache cache options then (fetchHandler query, [FetchHandler query])
               else (let queryKey = keyToString cache query
                     in (case cm_get queryKey options of
                           Inl e \<Rightarrow> (Inl e, [CacheManager_get queryKey options])
                         | Inr cacheResult \<Rightarrow>
                             (let res = get_onResult cache query fetchHandler options
                                          queryKey cacheResult
                              in (fst res, CacheManager_get queryKey options # snd res)))))))"

section \<open>Reading a trace\<close>

text \<open>The commands queued by the \<^verbatim>\<open>multi\<close> calls of a trace, in order.\<close>

fun queued_commands :: "'v event list \<Rightarrow> command list" where
  "queued_commands [] = []"
| "queued_commands (Redis_multi commands # evs) = commands @ queued_commands evs"
| "queued_commands (ev # evs) = queued_commands evs"

text \<open>The member keys one reply of \<^verbatim>\<open>smembers\<close> lists: none for \<^verbatim>\<open>null\<close>.\<close>

fun reply_members :: "reply \<Rightarrow> string list" where
  "reply_members (Array_reply members) = members"
| "reply_members r = []"

section \<open>Example values\<close>

text \<open>
  The values at which the theorems below are instantiated, after the mocks of the test
  suite: a query on the kind \<^verbatim>\<open>Company\<close>, a redis stub whose set \<^verbatim>\<open>User\<close> holds
  \<^verbatim>\<open>abc\<close> and \<^verbatim>\<open>def\<close> and whose \<^verbatim>\<open>del\<close> reports 7, and a cache with one memory store and
  nothing cached. \<open>mick\<close> has a stale \<^verbatim>\<open>__dsKey__\<close> of its own, and \<open>query2\<close> targets
  two kinds. The stand-ins for \<^verbatim>\<open>dsQueryToString\<close> and \<^verbatim>\<open>JSON.stringify\<close> print the kinds
  and details of a query and the meta part of a result.
\<close>

definition john :: entity where
  "john = \<lparr>props = [(''name'', JStr ''John'')], dsKEY = Some (JObj 1)\<rparr>"

definition mick :: entity where
  "mick = \<lparr>props = [(''name'', JStr ''Mick''), (''__dsKey__'', JNum 5)], dsKEY = Some (JObj 2)\<rparr>"

type_synonym result = "entities \<times> string"

definition query1 :: "result query" where
  "query1 = \<lparr>kinds = [''Company''], run = Inr (Many [john], ''NO_MORE_RESULTS''),
             details = ''name=Google''\<rparr>"

definition query2 :: "result query" where
  "query2 = \<lparr>kinds = [''Company'', ''User''],
             run = Inr (Many [john, mick], ''NO_MORE_RESULTS''), details = ''limit=2''\<rparr>"

definition queryRes :: result where
  "queryRes = (Many [john], ''MORE_RESULTS'')"

definition fetchHandler_resolves :: "result query \<Rightarrow> result outcome" where
  "fetchHandler_resolves q = Inr queryRes"

definition fetchHandler_rejects :: "result query \<Rightarrow> result outcome" where
  "fetchHandler_rejects q = Inl (Error ''Houston we got an error'')"

fun mock_reply :: "command \<Rightarrow> reply" where
  "mock_reply (SADD s k) = Integer_reply 1"
| "mock_reply (SET k v) = Status_reply ''OK''"
| "mock_reply (SETEX k t v) = Status_reply ''OK''"
| "mock_reply (SMEMBERS s) =
     (if s = ''gcq:User'' then Array_reply [''abc'', ''def''] else Null_reply)"

definition redis_mock :: redis_client where
  "redis_mock = \<lparr>multi_exec = (\<lambda>commands. Inr (map mock_reply commands)),
                 smembers = (\<lambda>s. Inr (Some [''abc'', ''def''])),
                 del = (\<lambda>keys. Inr 7)\<rparr>"

definition cache_mock :: "result cache" where
  "cache_mock =
     \<lparr>config_cachePrefix_queries = ''gcq:'',
      config_stores = [''memory''],
      config_ttl_queries = 5,
      config_ttl_stores = None,
      config_global = Some True,
      cacheManager_get = Some (\<lambda>k options. Inr None),
      cacheManagerNoRedis = None,
      redisClient = None,
      primeCache = (\<lambda>k v options. Inr v),
      dsQueryToString = (\<lambda>q. concat (kinds q) @ ''|'' @ details q),
      JSON_stringify = (\<lambda>v. ''[..., '' @ snd v @ '']''),
      getTTL = (\<lambda>options. TtlNum 5)\<rparr>"

text \<open>The same cache on a single redis store that keeps queries for ever.\<close>

definition redis_cache :: "result cache" where
  "redis_cache =
     cache_mock\<lparr>config_stores := [''redis''],
                config_ttl_stores := Some (\<lambda>storeName.
                   if storeName = ''redis'' then Some (Some 0) else None),
                redisClient := Some redis_mock,
                getTTL := (\<lambda>options. TtlNum 0)\<rparr>"

text \<open>The redis cache with a TTL of ten seconds for queries.\<close>

definition redis_cache_ttl10 :: "result cache" where
  "redis_cache_ttl10 =
     redis_cache\<lparr>config_ttl_stores := Some (\<lambda>storeName.
                    if storeName = ''redis'' then Some (Some 10) else None),
                  getTTL := (\<lambda>options. TtlNum 10)\<rparr>"

text \<open>Two stores, with the TTL -1 for queries everywhere.\<close>

definition two_stores_never :: "result cache" where
  "two_stores_never =
     cache_mock\<lparr>config_stores := [''memory'', ''redis''],
                config_ttl_queries := - 1,
                config_ttl_stores := Some (\<lambda>storeName.
                   if storeName = ''memory'' \<or> storeName = ''redis'' then Some (Some (- 1))
                   else None)\<rparr>"

text \<open>
  One store, with the TTL -1 for queries and \<^verbatim>\<open>config.global\<close> set to \<^verbatim>\<open>false\<close>; the
  options \<^verbatim>\<open>{cache: false}\<close> of a call.
\<close>

definition disabled_cache :: "result cache" where
  "disabled_cache =
     cache_mock\<lparr>config_ttl_queries := - 1,
                config_global := Some False,
                getTTL := (\<lambda>options. TtlNum (- 1))\<rparr>"

definition cache_false :: options where
  "cache_false = no_options\<lparr>opt_cache := Some False\<rparr>"

section \<open>Marshalling of the datastore keys\<close>


lemma unmarshal_marshal_entity:
  "dsKEY e = Some k \<Longrightarrow> truthy k \<Longrightarrow>
   unmarshal_entity (marshal_entity e) = e\<lparr>props := AList.delete ''__dsKey__'' (props e)\<rparr>"
  by (simp add: unmarshal_entity_def marshal_entity_def get_prop_def get_KEY_def
      AList.update_conv' AList.delete_update_same)

lemma unmarshal_entity_no_sidecar:
  assumes "''__dsKey__'' \<notin> fst ` set (props e)"
  shows "unmarshal_entity e = e"
proof -
  from assms have "map_of (props e) ''__dsKey__'' = None"
    by (simp add: map_of_eq_None_iff)
  then show ?thesis
    by (simp add: unmarshal_entity_def get_prop_def)
qed

lemma map_unmarshal_marshal:
  "\<forall>x\<in>set es. \<exists>k. dsKEY x = Some k \<and> truthy k \<Longrightarrow>
   map unmarshal_entity (map marshal_entity es)
     = map (\<lambda>x. x\<lparr>props := AList.delete ''__dsKey__'' (props x)\<rparr>) es"
  by (induction es) (auto simp: unmarshal_marshal_entity)

lemma map_unmarshal_no_sidecar:
  "\<forall>x\<in>set es. ''__dsKey__'' \<notin> fst ` set (props x) \<Longrightarrow> map unmarshal_entity es = es"
  by (induction es) (auto simp: unmarshal_entity_no_sidecar)

text \<open>
  C10. For an entity that carries a datastore KEY (a truthy value under the KEY symbol),
  \<open>unMarshalKeys\<close> after \<open>marshalKeys\<close> gives an entity with the same KEY and without
  a \<^verbatim>\<open>__dsKey__\<close> property (its other properties are those of the original); the same
  holds position by position for an array of such entities. Both functions map one entity
  to one entity and an array to an array of the same length, and \<open>unMarshalKeys\<close>
  returns entities without a \<^verbatim>\<open>__dsKey__\<close> property as they are.
\<close>

theorem unMarshalKeys_marshalKeys:
  "(dsKEY e = Some k \<and> truthy k \<longrightarrow>
      (\<exists>e'. unMarshalKeys (marshalKeys (Single e)) = Single e'
            \<and> dsKEY e' = Some k
            \<and> ''__dsKey__'' \<notin> fst ` set (props e')
            \<and> props e' = AList.delete ''__dsKey__'' (props e)))
   \<and> ((\<forall>x\<in>set es. \<exists>k. dsKEY x = Some k \<and> truthy k) \<longrightarrow>
      (\<exists>es'. unMarshalKeys (marshalKeys (Many es)) = Many es'
            \<and> length es' = length es
            \<and> (\<forall>i<length es. dsKEY (es' ! i) = dsKEY (es ! i)
                   \<and> ''__dsKey__'' \<notin> fst ` set (props (es' ! i))
                   \<and> props (es' ! i) = AList.delete ''__dsKey__'' (props (es ! i)))))
   \<and> (\<exists>e'. marshalKeys (Single e) = Single e')
   \<and> (\<exists>e'. unMarshalKeys (Single e) = Single e')
   \<and> (\<exists>es'. marshalKeys (Many es) = Many es' \<and> length es' = length es)
   \<and> (\<exists>es'. unMarshalKeys (Many es) = Many es' \<and> length es' = length es)
   \<and> (''__dsKey__'' \<notin> fst ` set (props e) \<longrightarrow> unMarshalKeys (Single e) = Single e)
   \<and> ((\<forall>x\<in>set es. ''__dsKey__'' \<notin> fst ` set (props x)) \<longrightarrow>
        unMarshalKeys (Many es) = Many es)"
proof (intro conjI impI)
  assume k: "dsKEY e = Some k \<and> truthy k"
  then have "unMarshalKeys (marshalKeys (Single e))
               = Single (e\<lparr>props := AList.delete ''__dsKey__'' (props e)\<rparr>)"
    by (simp add: unMarshalKeys_def marshalKeys_def unmarshal_marshal_entity)
  with k show "\<exists>e'. unMarshalKeys (marshalKeys (Single e)) = Single e'
            \<and> dsKEY e' = Some k
            \<and> ''__dsKey__'' \<notin> fst ` set (props e')
            \<and> props e' = AList.delete ''__dsKey__'' (props e)"
    by (simp add: AList.delete_notin_dom)
next
  assume ks: "\<forall>x\<in>set es. \<exists>k. dsKEY x = Some k \<and> truthy k"
  have "unMarshalKeys (marshalKeys (Many es))
               = Many (map unmarshal_entity (map marshal_entity es))"
    by (simp add: unMarshalKeys_def marshalKeys_def)
  with map_unmarshal_marshal [OF ks]
  have "unMarshalKeys (marshalKeys (Many es))
               = Many (map (\<lambda>x. x\<lparr>props := AList.delete ''__dsKey__'' (props x)\<rparr>) es)"
    by simp
  then show "\<exists>es'. unMarshalKeys (marshalKeys (Many es)) = Many es'
            \<and> length es' = length es
            \<and> (\<forall>i<length es. dsKEY (es' ! i) = dsKEY (es ! i)
                   \<and> ''__dsKey__'' \<notin> fst ` set (props (es' ! i))
                   \<and> props (es' ! i) = AList.delete ''__dsKey__'' (props (es ! i)))"
    by (simp add: AList.delete_notin_dom)
next
  show "\<exists>e'. marshalKeys (Single e) = Single e'"
    by (simp add: marshalKeys_def)
next
  show "\<exists>e'. unMarshalKeys (Single e) = Single e'"
    by (simp add: unMarshalKeys_def)
next
  show "\<exists>es'. marshalKeys (Many es) = Many es' \<and> length es' = length es"
    by (simp add: marshalKeys_def)
next
  show "\<exists>es'. unMarshalKeys (Many es) = Many es' \<and> length es' = length es"
    by (simp add: unMarshalKeys_def)
next
  assume "''__dsKey__'' \<notin> fst ` set (props e)"
  then show "unMarshalKeys (Single e) = Single e"
    by (simp add: unMarshalKeys_def unmarshal_entity_no_sidecar)
next
  assume "\<forall>x\<in>set es. ''__dsKey__'' \<notin> fst ` set (props x)"
  then show "unMarshalKeys (Many es) = Many es"
    by (simp add: unMarshalKeys_def map_unmarshal_no_sidecar)
qed

theorem unMarshalKeys_marshalKeys_witness:
  "dsKEY john = Some (JObj 1) \<and> truthy (JObj 1)
   \<and> dsKEY mick = Some (JObj 2) \<and> truthy (JObj 2)
   \<and> ''__dsKey__'' \<notin> fst ` set (props john)
   \<and> unMarshalKeys (marshalKeys (Single john)) = Single john
   \<and> unMarshalKeys (marshalKeys (Many [john, mick]))
       = Many [john, \<lparr>props = [(''name'', JStr ''Mick'')], dsKEY = Some (JObj 2)\<rparr>]
   \<and> unMarshalKeys (Single john) = Single john"
  using unMarshalKeys_marshalKeys [of john "JObj 1" "[john, mick]"]
  by (simp add: john_def mick_def unMarshalKeys_def marshalKeys_def unmarshal_entity_def
      marshal_entity_def get_prop_def get_KEY_def)

section \<open>The paths of get and wrap\<close>

text \<open>
  \<open>get\<close> either calls the fetch handler at once or reads the cache and hands the answer
  to its \<open>onResult\<close>; \<open>wrap\<close> always reads the cache. The lemmas below name these paths.
\<close>

lemma get_immediate:
  "skips_cache cache (get_options cache args) \<Longrightarrow>
   get cache query args = (args_handler args query, [FetchHandler query])"
  by (simp add: get_def Let_def split: option.splits)

lemma get_read:
  assumes "cacheManager_get cache = Some cm_get"
    and "\<not> skips_cache cache (get_options cache args)"
    and "cm_get (keyToString cache query) (get_options cache args) = Inr cacheResult"
  shows "get cache query args =
           (fst (get_onResult cache query (args_handler args) (get_options cache args)
                   (keyToString cache query) cacheResult),
            CacheManager_get (keyToString cache query) (get_options cache args)
            # snd (get_onResult cache query (args_handler args) (get_options cache args)
                   (keyToString cache query) cacheResult))"
  using assms by (simp add: get_def Let_def)

lemma get_read_fails:
  assumes "cacheManager_get cache = Some cm_get"
    and "\<not> skips_cache cache (get_options cache args)"
    and "cm_get (keyToString cache query) (get_options cache args) = Inl err"
  shows "get cache query args =
           (Inl err, [CacheManager_get (keyToString cache query) (get_options cache args)])"
  using assms by (simp add: get_def Let_def)

lemma wrap_read:
  assumes "cacheManager_get cache = Some cm_get"
    and "cm_get (queryToString cache query) (wrap_options cache opts) = Inr resultCached"
  shows "wrap cache query opts handler =
           (fst (wrap_onResult cache query (wrap_fetchHandler query handler)
                   (wrap_options cache opts) (queryToString cache query) resultCached),
            CacheManager_get (queryToString cache query) (wrap_options cache opts)
            # snd (wrap_onResult cache query (wrap_fetchHandler query handler)
                   (wrap_options cache opts) (queryToString cache query) resultCached))"
  using assms by (simp add: wrap_def Let_def)

lemma wrap_read_fails:
  assumes "cacheManager_get cache = Some cm_get"
    and "cm_get (queryToString cache query) (wrap_options cache opts) = Inl err"
  shows "wrap cache query opts handler =
           (Inl err, [CacheManager_get (queryToString cache query) (wrap_options cache opts)])"
  using assms by (simp add: wrap_def Let_def)

lemma get_onResult_hit:
  "get_onResult cache query fetchHandler options queryKey (Some cached) = (Inr cached, [])"
  by (simp add: get_onResult_def)

lemma wrap_onResult_hit:
  "wrap_onResult cache query fetchHandler options queryKey (Some cached) = (Inr cached, [])"
  by (simp add: wrap_onResult_def)

lemma get_onResult_fetch_fails:
  "fetchHandler query = Inl e \<Longrightarrow>
   get_onResult cache query fetchHandler options queryKey None = (Inl e, [FetchHandler query])"
  by (simp add: get_onResult_def)

lemma wrap_onResult_fetch_fails:
  "fetchHandler query = Inl e \<Longrightarrow>
   wrap_onResult cache query fetchHandler options queryKey None = (Inl e, [FetchHandler query])"
  by (simp add: wrap_onResult_def)

lemma get_onResult_miss_trace:
  "\<exists>rest. snd (get_onResult cache query fetchHandler options queryKey None)
            = FetchHandler query # rest"
  by (simp add: get_onResult_def Let_def split: sum.splits)

lemma wrap_onResult_miss_trace:
  "\<exists>rest. snd (wrap_onResult cache query fetchHandler options queryKey None)
            = FetchHandler query # rest"
  by (simp add: wrap_onResult_def Let_def split: sum.splits option.splits)

lemma get_onResult_index:
  assumes "fetchHandler query = Inr fetchResult"
    and "redisClient cache = Some client"
    and "ttlQueries cache = Some 0"
  shows "get_onResult cache query fetchHandler options queryKey None =
           ((case multi_exec client
                    [SADD (concat_kind (config_cachePrefix_queries cache)
                             (first_kind (kinds query))) queryKey,
                     SET queryKey (JSON_stringify cache fetchResult)] of
               Inl err \<Rightarrow> Inl err
             | Inr response \<Rightarrow> Inr fetchResult),
            [FetchHandler query,
             Redis_multi [SADD (concat_kind (config_cachePrefix_queries cache)
                                  (first_kind (kinds query))) queryKey,
                          SET queryKey (JSON_stringify cache fetchResult)]])"
  using assms
  by (simp add: get_onResult_def cacheQueryEntityKind_p0_def Let_def split: sum.splits)

lemma get_onResult_prime:
  assumes "fetchHandler query = Inr fetchResult"
    and "redisClient cache = None \<or> ttlQueries cache \<noteq> Some 0"
  shows "get_onResult cache query fetchHandler options queryKey None =
           (primeCache cache queryKey fetchResult options,
            [FetchHandler query, PrimeCache queryKey fetchResult options])"
  using assms by (auto simp: get_onResult_def)

lemma wrap_onResult_index:
  assumes "fetchHandler query = Inr resultFetched"
    and "redisClient cache = Some client"
    and "redisOptions_ttl options = Inr redis_ttl"
  shows "queued_commands (snd (wrap_onResult cache query fetchHandler options queryKey None))
           = map (\<lambda>kind. SADD (config_cachePrefix_queries cache @ kind) queryKey)
               (arrify_kinds (kind_arg_of (first_kind (kinds query))))
             @ [payload_command queryKey redis_ttl
                  (JSON_stringify cache (marshalKeys (fst resultFetched), snd resultFetched))]"
  using assms
  by (simp add: wrap_onResult_def cacheQueryEntityKind_def Let_def comp_def
      split: option.splits)

lemma get_fetch_in_trace:
  assumes "FetchHandler query \<in> set (snd (get cache query args))"
  shows "snd (get cache query args) = [FetchHandler query] \<and>
         fst (get cache query args) = args_handler args query
       \<or> (\<exists>cm_get. cacheManager_get cache = Some cm_get
            \<and> \<not> skips_cache cache (get_options cache args)
            \<and> cm_get (keyToString cache query) (get_options cache args) = Inr None)"
proof (cases "skips_cache cache (get_options cache args)")
  case True
  then show ?thesis by (simp add: get_immediate)
next
  case False
  then obtain cm_get where cm: "cacheManager_get cache = Some cm_get"
    by (auto simp: skips_cache_def)
  show ?thesis
  proof (cases "cm_get (keyToString cache query) (get_options cache args)")
    case (Inl err)
    with cm False assms show ?thesis by (simp add: get_read_fails)
  next
    case (Inr cacheResult)
    with cm False assms show ?thesis
      by (cases cacheResult) (auto simp: get_read get_onResult_hit)
  qed
qed

lemma wrap_fetch_in_trace:
  assumes "FetchHandler query \<in> set (snd (wrap cache query opts handler))"
  shows "\<exists>cm_get. cacheManager_get cache = Some cm_get
            \<and> cm_get (queryToString cache query) (wrap_options cache opts) = Inr None"
proof (cases "cacheManager_get cache")
  case None
  with assms show ?thesis by (simp add: wrap_def Let_def)
next
  case (Some cm_get)
  show ?thesis
  proof (cases "cm_get (queryToString cache query) (wrap_options cache opts)")
    case (Inl err)
    with Some assms show ?thesis by (simp add: wrap_read_fails)
  next
    case (Inr resultCached)
    with Some assms show ?thesis
      by (cases resultCached) (auto simp: wrap_read wrap_onResult_hit)
  qed
qed

text \<open>
  The TTL that \<open>get\<close> resolves is the number -1 exactly when at most one store is
  configured and \<^verbatim>\<open>config.ttl.queries\<close> is -1: with several stores it is a function.
\<close>

lemma get_ttl_minus_one_iff:
  "get_ttl cache = TtlNum (- 1)
   \<longleftrightarrow> length (config_stores cache) \<le> 1 \<and> config_ttl_queries cache = - 1"
  by (auto simp: get_ttl_def)

text \<open>
  What \<open>wrap\<close> does with a fetched result, and the first call of \<open>get\<close> and of \<open>wrap\<close>
  when the cache is not skipped.
\<close>

lemma wrap_onResult_index_trace:
  assumes "fetchHandler query = Inr resultFetched"
    and "redisClient cache = Some client"
    and "redisOptions_ttl options = Inr redis_ttl"
  shows "snd (wrap_onResult cache query fetchHandler options queryKey None)
           = FetchHandler query
             # Redis_multi
                 (map (\<lambda>kind. SADD (config_cachePrefix_queries cache @ kind) queryKey)
                    (arrify_kinds (kind_arg_of (first_kind (kinds query))))
                  @ [payload_command queryKey redis_ttl
                       (JSON_stringify cache
                          (marshalKeys (fst resultFetched), snd resultFetched))])
             # (case cacheManagerNoRedis cache of
                  None \<Rightarrow> []
                | Some noRedis \<Rightarrow>
                    [PrimeCache queryKey resultFetched
                       (options\<lparr>opt_cacheManager := Some noRedis\<rparr>)])"
  using assms
  by (simp add: wrap_onResult_def cacheQueryEntityKind_def Let_def comp_def
      split: option.splits)

lemma wrap_onResult_prime:
  assumes "fetchHandler query = Inr resultFetched"
    and "redisClient cache = None"
  shows "wrap_onResult cache query fetchHandler options queryKey None
           = (primeCache cache queryKey resultFetched options,
              [FetchHandler query, PrimeCache queryKey resultFetched options])"
  using assms by (simp add: wrap_onResult_def)

lemma get_reads_cache_first:
  "cacheManager_get cache = Some cm_get \<Longrightarrow>
   \<not> skips_cache cache (get_options cache args) \<Longrightarrow>
   \<exists>rest. snd (get cache query args)
      = CacheManager_get (keyToString cache query) (get_options cache args) # rest"
  by (auto simp: get_def Let_def split: sum.splits)

lemma wrap_reads_cache_first:
  "cacheManager_get cache = Some cm_get \<Longrightarrow>
   \<exists>rest. snd (wrap cache query opts handler)
      = CacheManager_get (queryToString cache query) (wrap_options cache opts) # rest"
  by (simp add: wrap_def Let_def split: sum.splits)

text \<open>The definitions unfolded when a call is evaluated on the example values.\<close>

lemmas example_defs =
  redis_cache_def cache_mock_def query1_def queryRes_def fetchHandler_resolves_def
  redis_mock_def no_options_def

lemmas get_defs =
  get_def get_options_def skips_cache_def get_ttl_def keyToString_def get_onResult_def
  ttlQueries_def cacheQueryEntityKind_p0_def concat_kind_def Let_def

lemmas wrap_defs =
  wrap_def wrap_options_def wrap_fetchHandler_def queryToString_def wrap_onResult_def
  redisOptions_ttl_def cacheQueryEntityKind_def payload_command_def kind_arg_of_def
  all_then_def marshalKeys_def marshal_entity_def get_KEY_def Let_def

section \<open>Skipping the cache\<close>

text \<open>
  C4, as amended. For \<open>get\<close> of src/unnamed/part_000: if at most one store is configured
  and \<^verbatim>\<open>config.ttl.queries\<close> is -1, or the call's option \<^verbatim>\<open>cache\<close> is \<^verbatim>\<open>false\<close>, or
  \<^verbatim>\<open>config.global\<close> is \<^verbatim>\<open>false\<close> and the call's option \<^verbatim>\<open>cache\<close> is not \<^verbatim>\<open>true\<close>, the call
  is the fetch handler's call: its outcome is the handler's outcome and the handler's call
  is the only collaborator call made, so the cache is neither read nor written. With
  several stores the TTL of the call is a function, never the number -1: when a cache
  manager is configured and neither of the other two conditions holds, \<open>get\<close> reads the
  cache first, whatever the TTLs configured. \<open>wrap\<close> of src/lib/queries.js has no such
  test: with a cache manager its first collaborator call is the cache read, whatever the
  TTL, the options and the configuration.
\<close>

theorem get_skips_cache:
  "((length (config_stores cache) \<le> 1 \<and> config_ttl_queries cache = - 1)
      \<or> opt_cache (args_options args) = Some False
      \<or> (config_global cache = Some False \<and> opt_cache (args_options args) \<noteq> Some True)
     \<longrightarrow> get cache query args = (args_handler args query, [FetchHandler query]))
   \<and> (1 < length (config_stores cache)
        \<and> cacheManager_get cache = Some cm_get
        \<and> opt_cache (args_options args) \<noteq> Some False
        \<and> (config_global cache = Some False \<longrightarrow> opt_cache (args_options args) = Some True)
     \<longrightarrow> (\<exists>rest. snd (get cache query args)
            = CacheManager_get (keyToString cache query) (get_options cache args) # rest))
   \<and> (cacheManager_get wcache = Some wcm_get
     \<longrightarrow> (\<exists>rest. snd (wrap wcache wquery opts handler)
            = CacheManager_get (queryToString wcache wquery) (wrap_options wcache opts)
              # rest))"
proof (intro conjI impI)
  assume "(length (config_stores cache) \<le> 1 \<and> config_ttl_queries cache = - 1)
      \<or> opt_cache (args_options args) = Some False
      \<or> (config_global cache = Some False \<and> opt_cache (args_options args) \<noteq> Some True)"
  then have "skips_cache cache (get_options cache args)"
    by (auto simp: skips_cache_def get_options_def get_ttl_def)
  then show "get cache query args = (args_handler args query, [FetchHandler query])"
    by (rule get_immediate)
next
  assume a: "1 < length (config_stores cache)
        \<and> cacheManager_get cache = Some cm_get
        \<and> opt_cache (args_options args) \<noteq> Some False
        \<and> (config_global cache = Some False \<longrightarrow> opt_cache (args_options args) = Some True)"
  then have "\<not> skips_cache cache (get_options cache args)"
    by (auto simp: skips_cache_def get_options_def get_ttl_def)
  with a show "\<exists>rest. snd (get cache query args)
            = CacheManager_get (keyToString cache query) (get_options cache args) # rest"
    by (simp add: get_reads_cache_first)
next
  assume "cacheManager_get wcache = Some wcm_get"
  then show "\<exists>rest. snd (wrap wcache wquery opts handler)
            = CacheManager_get (queryToString wcache wquery) (wrap_options wcache opts)
              # rest"
    by (rule wrap_reads_cache_first)
qed

theorem get_skips_cache_witness:
  "length (config_stores (cache_mock\<lparr>config_ttl_queries := - 1\<rparr>)) \<le> 1
   \<and> config_ttl_queries (cache_mock\<lparr>config_ttl_queries := - 1\<rparr>) = - 1
   \<and> get (cache_mock\<lparr>config_ttl_queries := - 1\<rparr>) query1 (Handler fetchHandler_resolves)
       = (Inr queryRes, [FetchHandler query1])
   \<and> opt_cache (args_options (Options_handler cache_false fetchHandler_resolves)) = Some False
   \<and> get cache_mock query1 (Options_handler cache_false fetchHandler_resolves)
       = (Inr queryRes, [FetchHandler query1])
   \<and> config_global (cache_mock\<lparr>config_global := Some False\<rparr>) = Some False
   \<and> opt_cache (args_options (Handler fetchHandler_resolves)) \<noteq> Some True
   \<and> get (cache_mock\<lparr>config_global := Some False\<rparr>) query1 (Handler fetchHandler_resolves)
       = (Inr queryRes, [FetchHandler query1])
   \<and> 1 < length (config_stores two_stores_never)
   \<and> snd (get two_stores_never query1 (Handler fetchHandler_resolves))
       = [CacheManager_get ''gcq:Company|name=Google''
            (get_options two_stores_never (Handler fetchHandler_resolves)),
          FetchHandler query1,
          PrimeCache ''gcq:Company|name=Google'' queryRes
            (get_options two_stores_never (Handler fetchHandler_resolves))]
   \<and> snd (wrap disabled_cache query1 (Some cache_false) (Some fetchHandler_resolves))
       = [CacheManager_get ''gcq:Company|name=Google''
            \<lparr>opt_ttl = Some (TtlNum (- 1)), opt_cache = Some False, opt_cacheManager = None\<rparr>,
          FetchHandler query1,
          PrimeCache ''gcq:Company|name=Google'' queryRes
            \<lparr>opt_ttl = Some (TtlNum (- 1)), opt_cache = Some False, opt_cacheManager = None\<rparr>]"
  using get_skips_cache [where cache = "cache_mock\<lparr>config_ttl_queries := - 1\<rparr>"
          and args = "Handler fetchHandler_resolves" and query = query1
          and wcache = disabled_cache and wcm_get = "\<lambda>k options. Inr None"
          and wquery = query1 and opts = "Some cache_false"
          and handler = "Some fetchHandler_resolves"]
        get_skips_cache [where cache = cache_mock
          and args = "Options_handler cache_false fetchHandler_resolves" and query = query1]
        get_skips_cache [where cache = "cache_mock\<lparr>config_global := Some False\<rparr>"
          and args = "Handler fetchHandler_resolves" and query = query1]
        get_skips_cache [where cache = two_stores_never
          and cm_get = "\<lambda>k options. Inr None"
          and args = "Handler fetchHandler_resolves" and query = query1]
  by (simp add: example_defs two_stores_never_def disabled_cache_def cache_false_def
      get_defs wrap_defs)

text \<open>
  C4 as stated fails for \<open>wrap\<close>, and for \<open>get\<close> with two stores. With the TTL -1, the
  option \<^verbatim>\<open>cache\<close> set to \<^verbatim>\<open>false\<close> and \<^verbatim>\<open>config.global\<close> set to \<^verbatim>\<open>false\<close> together, \<open>wrap\<close>
  reads the cache, calls the fetch handler and primes the cache. With two stores whose TTL
  for queries is -1 everywhere, \<open>get\<close> does the same.
\<close>

theorem wrap_never_skips_counterexample:
  "getTTL disabled_cache cache_false = TtlNum (- 1)
   \<and> opt_cache cache_false = Some False
   \<and> config_global disabled_cache = Some False
   \<and> wrap disabled_cache query1 (Some cache_false) (Some fetchHandler_resolves)
       = (Inr queryRes,
          [CacheManager_get ''gcq:Company|name=Google''
             \<lparr>opt_ttl = Some (TtlNum (- 1)), opt_cache = Some False,
                opt_cacheManager = None\<rparr>,
           FetchHandler query1,
           PrimeCache ''gcq:Company|name=Google'' queryRes
             \<lparr>opt_ttl = Some (TtlNum (- 1)), opt_cache = Some False,
                opt_cacheManager = None\<rparr>])
   \<and> config_ttl_queries two_stores_never = - 1
   \<and> stores_ttl_queries two_stores_never ''memory'' = Inr (Some (- 1))
   \<and> stores_ttl_queries two_stores_never ''redis'' = Inr (Some (- 1))
   \<and> get two_stores_never query1 (Handler fetchHandler_resolves)
       = (Inr queryRes,
          [CacheManager_get ''gcq:Company|name=Google''
             (get_options two_stores_never (Handler fetchHandler_resolves)),
           FetchHandler query1,
           PrimeCache ''gcq:Company|name=Google'' queryRes
             (get_options two_stores_never (Handler fetchHandler_resolves))])"
  by (simp add: example_defs two_stores_never_def disabled_cache_def cache_false_def
      get_defs wrap_defs stores_ttl_queries_def)

section \<open>Cache hit and cache miss\<close>

text \<open>
  C5. With caching active, a defined value read from the cache is the result and the read
  is the only collaborator call made, so the fetch handler is not called; when the read
  gives \<^verbatim>\<open>undefined\<close>, the next call made is the fetch handler's. This holds for \<open>get\<close>
  (where caching is active when the call does not skip the cache) and for \<open>wrap\<close>.
\<close>

theorem hit_returns_cached_miss_fetches:
  "(cacheManager_get cache = Some cm_get \<and> \<not> skips_cache cache (get_options cache args) \<longrightarrow>
      (\<forall>cached. cm_get (keyToString cache query) (get_options cache args) = Inr (Some cached) \<longrightarrow>
         get cache query args
           = (Inr cached, [CacheManager_get (keyToString cache query) (get_options cache args)]))
      \<and> (cm_get (keyToString cache query) (get_options cache args) = Inr None \<longrightarrow>
           (\<exists>rest. snd (get cache query args)
              = CacheManager_get (keyToString cache query) (get_options cache args)
                # FetchHandler query # rest)))
   \<and> (cacheManager_get wcache = Some wcm_get \<longrightarrow>
      (\<forall>cached. wcm_get (queryToString wcache wquery) (wrap_options wcache opts)
                   = Inr (Some cached) \<longrightarrow>
         wrap wcache wquery opts handler
           = (Inr cached,
              [CacheManager_get (queryToString wcache wquery) (wrap_options wcache opts)]))
      \<and> (wcm_get (queryToString wcache wquery) (wrap_options wcache opts) = Inr None \<longrightarrow>
           (\<exists>rest. snd (wrap wcache wquery opts handler)
              = CacheManager_get (queryToString wcache wquery) (wrap_options wcache opts)
                # FetchHandler wquery # rest)))"
proof (intro conjI impI allI)
  fix cached
  assume "cacheManager_get cache = Some cm_get \<and> \<not> skips_cache cache (get_options cache args)"
    and "cm_get (keyToString cache query) (get_options cache args) = Inr (Some cached)"
  then show "get cache query args
           = (Inr cached, [CacheManager_get (keyToString cache query) (get_options cache args)])"
    by (simp add: get_read get_onResult_hit)
next
  assume "cacheManager_get cache = Some cm_get \<and> \<not> skips_cache cache (get_options cache args)"
    and "cm_get (keyToString cache query) (get_options cache args) = Inr None"
  then show "\<exists>rest. snd (get cache query args)
              = CacheManager_get (keyToString cache query) (get_options cache args)
                # FetchHandler query # rest"
    using get_onResult_miss_trace [of cache query "args_handler args" "get_options cache args"
        "keyToString cache query"]
    by (auto simp: get_read)
next
  fix cached
  assume "cacheManager_get wcache = Some wcm_get"
    and "wcm_get (queryToString wcache wquery) (wrap_options wcache opts) = Inr (Some cached)"
  then show "wrap wcache wquery opts handler
           = (Inr cached,
              [CacheManager_get (queryToString wcache wquery) (wrap_options wcache opts)])"
    by (simp add: wrap_read wrap_onResult_hit)
next
  assume "cacheManager_get wcache = Some wcm_get"
    and "wcm_get (queryToString wcache wquery) (wrap_options wcache opts) = Inr None"
  then show "\<exists>rest. snd (wrap wcache wquery opts handler)
              = CacheManager_get (queryToString wcache wquery) (wrap_options wcache opts)
                # FetchHandler wquery # rest"
    using wrap_onResult_miss_trace [of wcache wquery "wrap_fetchHandler wquery handler"
        "wrap_options wcache opts" "queryToString wcache wquery"]
    by (auto simp: wrap_read)
qed

theorem hit_returns_cached_miss_fetches_witness:
  "cacheManager_get (cache_mock\<lparr>cacheManager_get := Some (\<lambda>k options. Inr (Some queryRes))\<rparr>)
     = Some (\<lambda>k options. Inr (Some queryRes))
   \<and> \<not> skips_cache cache_mock (get_options cache_mock (Handler fetchHandler_resolves))
   \<and> get (cache_mock\<lparr>cacheManager_get := Some (\<lambda>k options. Inr (Some queryRes))\<rparr>)
         query1 (Handler fetchHandler_resolves)
       = (Inr queryRes,
          [CacheManager_get ''gcq:Company|name=Google''
             \<lparr>opt_ttl = Some (TtlNum 5), opt_cache = None, opt_cacheManager = None\<rparr>])
   \<and> snd (get cache_mock query1 (Handler fetchHandler_resolves))
       = [CacheManager_get ''gcq:Company|name=Google''
            \<lparr>opt_ttl = Some (TtlNum 5), opt_cache = None, opt_cacheManager = None\<rparr>,
          FetchHandler query1,
          PrimeCache ''gcq:Company|name=Google'' queryRes
            \<lparr>opt_ttl = Some (TtlNum 5), opt_cache = None, opt_cacheManager = None\<rparr>]
   \<and> wrap (cache_mock\<lparr>cacheManager_get := Some (\<lambda>k options. Inr (Some queryRes))\<rparr>)
         query1 None None
       = (Inr queryRes,
          [CacheManager_get ''gcq:Company|name=Google''
             \<lparr>opt_ttl = Some (TtlNum 5), opt_cache = None, opt_cacheManager = None\<rparr>])
   \<and> snd (wrap cache_mock query1 None None)
       = [CacheManager_get ''gcq:Company|name=Google''
            \<lparr>opt_ttl = Some (TtlNum 5), opt_cache = None, opt_cacheManager = None\<rparr>,
          FetchHandler query1,
          PrimeCache ''gcq:Company|name=Google'' (Many [john], ''NO_MORE_RESULTS'')
            \<lparr>opt_ttl = Some (TtlNum 5), opt_cache = None, opt_cacheManager = None\<rparr>]"
  using hit_returns_cached_miss_fetches
          [where cache = "cache_mock\<lparr>cacheManager_get := Some (\<lambda>k options. Inr (Some queryRes))\<rparr>"
             and cm_get = "\<lambda>k options. Inr (Some queryRes)"
             and args = "Handler fetchHandler_resolves" and query = query1
             and wcache = "cache_mock\<lparr>cacheManager_get := Some (\<lambda>k options. Inr (Some queryRes))\<rparr>"
             and wcm_get = "\<lambda>k options. Inr (Some queryRes)"
             and wquery = query1 and opts = None and handler = None]
        hit_returns_cached_miss_fetches
          [where cache = cache_mock and cm_get = "\<lambda>k options. Inr None"
             and args = "Handler fetchHandler_resolves" and query = query1
             and wcache = cache_mock and wcm_get = "\<lambda>k options. Inr None"
             and wquery = query1 and opts = None and handler = None]
  by (simp add: example_defs get_defs wrap_defs)

section \<open>A fetch handler that rejects\<close>

text \<open>
  C8. When a call of \<open>get\<close> or \<open>wrap\<close> reaches the fetch handler and the handler
  rejects with \<open>e\<close>, the call rejects with \<open>e\<close>, and its collaborator calls are the
  fetch alone or the cache read followed by the fetch: nothing was written to any cache.
\<close>

theorem fetch_rejection_propagates:
  "(args_handler args query = Inl e
      \<and> FetchHandler query \<in> set (snd (get cache query args)) \<longrightarrow>
        fst (get cache query args) = Inl e
        \<and> (snd (get cache query args) = [FetchHandler query]
           \<or> snd (get cache query args)
               = [CacheManager_get (keyToString cache query) (get_options cache args),
                  FetchHandler query]))
   \<and> (wrap_fetchHandler wquery handler wquery = Inl e
      \<and> FetchHandler wquery \<in> set (snd (wrap wcache wquery opts handler)) \<longrightarrow>
        wrap wcache wquery opts handler
          = (Inl e, [CacheManager_get (queryToString wcache wquery) (wrap_options wcache opts),
                     FetchHandler wquery]))"
proof (rule conjI; rule impI)
  assume a: "args_handler args query = Inl e
      \<and> FetchHandler query \<in> set (snd (get cache query args))"
  from a get_fetch_in_trace [of query cache args]
  show "fst (get cache query args) = Inl e
        \<and> (snd (get cache query args) = [FetchHandler query]
           \<or> snd (get cache query args)
               = [CacheManager_get (keyToString cache query) (get_options cache args),
                  FetchHandler query])"
    by (auto simp: get_read get_onResult_fetch_fails)
next
  assume a: "wrap_fetchHandler wquery handler wquery = Inl e
      \<and> FetchHandler wquery \<in> set (snd (wrap wcache wquery opts handler))"
  from a wrap_fetch_in_trace [of wquery wcache opts handler]
  show "wrap wcache wquery opts handler
          = (Inl e, [CacheManager_get (queryToString wcache wquery) (wrap_options wcache opts),
                     FetchHandler wquery])"
    by (auto simp: wrap_read wrap_onResult_fetch_fails)
qed

theorem fetch_rejection_propagates_witness:
  "fetchHandler_rejects query1 = Inl (Error ''Houston we got an error'')
   \<and> FetchHandler query1 \<in> set (snd (get cache_mock query1 (Handler fetchHandler_rejects)))
   \<and> get cache_mock query1 (Handler fetchHandler_rejects)
       = (Inl (Error ''Houston we got an error''),
          [CacheManager_get ''gcq:Company|name=Google''
             \<lparr>opt_ttl = Some (TtlNum 5), opt_cache = None, opt_cacheManager = None\<rparr>,
           FetchHandler query1])
   \<and> FetchHandler query1
        \<in> set (snd (wrap redis_cache query1 None (Some fetchHandler_rejects)))
   \<and> wrap redis_cache query1 None (Some fetchHandler_rejects)
       = (Inl (Error ''Houston we got an error''),
          [CacheManager_get ''gcq:Company|name=Google''
             \<lparr>opt_ttl = Some (TtlNum 0), opt_cache = None, opt_cacheManager = None\<rparr>,
           FetchHandler query1])"
  using fetch_rejection_propagates
          [where args = "Handler fetchHandler_rejects" and query = query1
             and e = "Error ''Houston we got an error''" and cache = cache_mock
             and wquery = query1 and handler = "Some fetchHandler_rejects"
             and wcache = redis_cache and opts = None]
  by (simp add: example_defs fetchHandler_rejects_def get_defs wrap_defs)

section \<open>The priming route on a cache miss\<close>

text \<open>
  C1, as amended. On a cache miss of \<open>get\<close> of src/unnamed/part_000, after the fetch
  handler has resolved: when \<^verbatim>\<open>config.ttl.stores.redis.queries\<close> is 0 and a redis client is
  configured, the call queues one \<^verbatim>\<open>multi\<close> holding the \<^verbatim>\<open>sadd\<close> of the cache key into the
  set of the query's first kind and the \<^verbatim>\<open>set\<close> of the payload, and does not call
  \<^verbatim>\<open>primeCache\<close>; when that TTL is positive, the result is primed with \<^verbatim>\<open>primeCache\<close> and no
  redis command is queued. On a cache miss of \<open>wrap\<close> of src/lib/queries.js the TTL does
  not choose the route: with a redis client the call always queues one \<^verbatim>\<open>multi\<close> holding
  the \<^verbatim>\<open>sadd\<close> and the payload write (\<^verbatim>\<open>set\<close> when the TTL for redis is 0 or absent, \<^verbatim>\<open>setex\<close>
  otherwise), and calls \<^verbatim>\<open>primeCache\<close> only for the cache manager without redis, if there
  is one; without a redis client the result is primed with \<^verbatim>\<open>primeCache\<close> and no redis
  command is queued.
\<close>

theorem get_priming_route:
  "(cacheManager_get cache = Some cm_get
      \<and> \<not> skips_cache cache (get_options cache args)
      \<and> cm_get (keyToString cache query) (get_options cache args) = Inr None
      \<and> args_handler args query = Inr fetchResult
      \<and> config_ttl_stores cache = Some stores
      \<and> stores ''redis'' = Some (Some t) \<longrightarrow>
        (t = 0 \<longrightarrow> (\<forall>client. redisClient cache = Some client \<longrightarrow>
            get cache query args =
              ((case multi_exec client
                       [SADD (concat_kind (config_cachePrefix_queries cache)
                                (first_kind (kinds query))) (keyToString cache query),
                        SET (keyToString cache query) (JSON_stringify cache fetchResult)] of
                  Inl err \<Rightarrow> Inl err
                | Inr response \<Rightarrow> Inr fetchResult),
               [CacheManager_get (keyToString cache query) (get_options cache args),
                FetchHandler query,
                Redis_multi [SADD (concat_kind (config_cachePrefix_queries cache)
                                     (first_kind (kinds query))) (keyToString cache query),
                             SET (keyToString cache query)
                               (JSON_stringify cache fetchResult)]])))
        \<and> (0 < t \<longrightarrow>
            get cache query args =
              (primeCache cache (keyToString cache query) fetchResult (get_options cache args),
               [CacheManager_get (keyToString cache query) (get_options cache args),
                FetchHandler query,
                PrimeCache (keyToString cache query) fetchResult (get_options cache args)])))
   \<and> (cacheManager_get wcache = Some wcm_get
      \<and> wcm_get (queryToString wcache wquery) (wrap_options wcache opts) = Inr None
      \<and> wrap_fetchHandler wquery handler wquery = Inr resultFetched \<longrightarrow>
        (\<forall>wclient redis_ttl.
            redisClient wcache = Some wclient
            \<and> redisOptions_ttl (wrap_options wcache opts) = Inr redis_ttl \<longrightarrow>
            snd (wrap wcache wquery opts handler) =
              CacheManager_get (queryToString wcache wquery) (wrap_options wcache opts)
              # FetchHandler wquery
              # Redis_multi
                  (map (\<lambda>kind. SADD (config_cachePrefix_queries wcache @ kind)
                                 (queryToString wcache wquery))
                     (arrify_kinds (kind_arg_of (first_kind (kinds wquery))))
                   @ [payload_command (queryToString wcache wquery) redis_ttl
                        (JSON_stringify wcache
                           (marshalKeys (fst resultFetched), snd resultFetched))])
              # (case cacheManagerNoRedis wcache of
                   None \<Rightarrow> []
                 | Some noRedis \<Rightarrow>
                     [PrimeCache (queryToString wcache wquery) resultFetched
                        ((wrap_options wcache opts)\<lparr>opt_cacheManager := Some noRedis\<rparr>)]))
        \<and> (redisClient wcache = None \<longrightarrow>
            wrap wcache wquery opts handler =
              (primeCache wcache (queryToString wcache wquery) resultFetched
                 (wrap_options wcache opts),
               [CacheManager_get (queryToString wcache wquery) (wrap_options wcache opts),
                FetchHandler wquery,
                PrimeCache (queryToString wcache wquery) resultFetched
                  (wrap_options wcache opts)])))"
proof (rule conjI; rule impI)
  assume a: "cacheManager_get cache = Some cm_get
      \<and> \<not> skips_cache cache (get_options cache args)
      \<and> cm_get (keyToString cache query) (get_options cache args) = Inr None
      \<and> args_handler args query = Inr fetchResult
      \<and> config_ttl_stores cache = Some stores
      \<and> stores ''redis'' = Some (Some t)"
  then have ttl: "ttlQueries cache = Some t"
    by (simp add: ttlQueries_def)
  have zero: "t = 0 \<longrightarrow> (\<forall>client. redisClient cache = Some client \<longrightarrow>
            get cache query args =
              ((case multi_exec client
                       [SADD (concat_kind (config_cachePrefix_queries cache)
                                (first_kind (kinds query))) (keyToString cache query),
                        SET (keyToString cache query) (JSON_stringify cache fetchResult)] of
                  Inl err \<Rightarrow> Inl err
                | Inr response \<Rightarrow> Inr fetchResult),
               [CacheManager_get (keyToString cache query) (get_options cache args),
                FetchHandler query,
                Redis_multi [SADD (concat_kind (config_cachePrefix_queries cache)
                                     (first_kind (kinds query))) (keyToString cache query),
                             SET (keyToString cache query)
                               (JSON_stringify cache fetchResult)]]))"
    using a ttl by (simp add: get_read get_onResult_index)
  have positive: "0 < t \<longrightarrow>
            get cache query args =
              (primeCache cache (keyToString cache query) fetchResult (get_options cache args),
               [CacheManager_get (keyToString cache query) (get_options cache args),
                FetchHandler query,
                PrimeCache (keyToString cache query) fetchResult (get_options cache args)])"
    using a ttl by (simp add: get_read get_onResult_prime)
  from zero positive
  show "(t = 0 \<longrightarrow> (\<forall>client. redisClient cache = Some client \<longrightarrow>
            get cache query args =
              ((case multi_exec client
                       [SADD (concat_kind (config_cachePrefix_queries cache)
                                (first_kind (kinds query))) (keyToString cache query),
                        SET (keyToString cache query) (JSON_stringify cache fetchResult)] of
                  Inl err \<Rightarrow> Inl err
                | Inr response \<Rightarrow> Inr fetchResult),
               [CacheManager_get (keyToString cache query) (get_options cache args),
                FetchHandler query,
                Redis_multi [SADD (concat_kind (config_cachePrefix_queries cache)
                                     (first_kind (kinds query))) (keyToString cache query),
                             SET (keyToString cache query)
                               (JSON_stringify cache fetchResult)]])))
        \<and> (0 < t \<longrightarrow>
            get cache query args =
              (primeCache cache (keyToString cache query) fetchResult (get_options cache args),
               [CacheManager_get (keyToString cache query) (get_options cache args),
                FetchHandler query,
                PrimeCache (keyToString cache query) fetchResult (get_options cache args)]))"
    by (rule conjI)
next
  assume a: "cacheManager_get wcache = Some wcm_get
      \<and> wcm_get (queryToString wcache wquery) (wrap_options wcache opts) = Inr None
      \<and> wrap_fetchHandler wquery handler wquery = Inr resultFetched"
  have index: "\<forall>wclient redis_ttl.
            redisClient wcache = Some wclient
            \<and> redisOptions_ttl (wrap_options wcache opts) = Inr redis_ttl \<longrightarrow>
            snd (wrap wcache wquery opts handler) =
              CacheManager_get (queryToString wcache wquery) (wrap_options wcache opts)
              # FetchHandler wquery
              # Redis_multi
                  (map (\<lambda>kind. SADD (config_cachePrefix_queries wcache @ kind)
                                 (queryToString wcache wquery))
                     (arrify_kinds (kind_arg_of (first_kind (kinds wquery))))
                   @ [payload_command (queryToString wcache wquery) redis_ttl
                        (JSON_stringify wcache
                           (marshalKeys (fst resultFetched), snd resultFetched))])
              # (case cacheManagerNoRedis wcache of
                   None \<Rightarrow> []
                 | Some noRedis \<Rightarrow>
                     [PrimeCache (queryToString wcache wquery) resultFetched
                        ((wrap_options wcache opts)\<lparr>opt_cacheManager := Some noRedis\<rparr>)])"
  proof (intro allI impI)
    fix wclient redis_ttl
    assume b: "redisClient wcache = Some wclient
            \<and> redisOptions_ttl (wrap_options wcache opts) = Inr redis_ttl"
    from a b
      wrap_onResult_index_trace [where fetchHandler = "wrap_fetchHandler wquery handler"
        and query = wquery and cache = wcache and options = "wrap_options wcache opts"
        and queryKey = "queryToString wcache wquery" and resultFetched = resultFetched
        and client = wclient and redis_ttl = redis_ttl]
    show "snd (wrap wcache wquery opts handler) =
              CacheManager_get (queryToString wcache wquery) (wrap_options wcache opts)
              # FetchHandler wquery
              # Redis_multi
                  (map (\<lambda>kind. SADD (config_cachePrefix_queries wcache @ kind)
                                 (queryToString wcache wquery))
                     (arrify_kinds (kind_arg_of (first_kind (kinds wquery))))
                   @ [payload_command (queryToString wcache wquery) redis_ttl
                        (JSON_stringify wcache
                           (marshalKeys (fst resultFetched), snd resultFetched))])
              # (case cacheManagerNoRedis wcache of
                   None \<Rightarrow> []
                 | Some noRedis \<Rightarrow>
                     [PrimeCache (queryToString wcache wquery) resultFetched
                        ((wrap_options wcache opts)\<lparr>opt_cacheManager := Some noRedis\<rparr>)])"
      by (simp add: wrap_read)
  qed
  have prime: "redisClient wcache = None \<longrightarrow>
            wrap wcache wquery opts handler =
              (primeCache wcache (queryToString wcache wquery) resultFetched
                 (wrap_options wcache opts),
               [CacheManager_get (queryToString wcache wquery) (wrap_options wcache opts),
                FetchHandler wquery,
                PrimeCache (queryToString wcache wquery) resultFetched
                  (wrap_options wcache opts)])"
    using a by (simp add: wrap_read wrap_onResult_prime)
  from index prime
  show "(\<forall>wclient redis_ttl.
            redisClient wcache = Some wclient
            \<and> redisOptions_ttl (wrap_options wcache opts) = Inr redis_ttl \<longrightarrow>
            snd (wrap wcache wquery opts handler) =
              CacheManager_get (queryToString wcache wquery) (wrap_options wcache opts)
              # FetchHandler wquery
              # Redis_multi
                  (map (\<lambda>kind. SADD (config_cachePrefix_queries wcache @ kind)
                                 (queryToString wcache wquery))
                     (arrify_kinds (kind_arg_of (first_kind (kinds wquery))))
                   @ [payload_command (queryToString wcache wquery) redis_ttl
                        (JSON_stringify wcache
                           (marshalKeys (fst resultFetched), snd resultFetched))])
              # (case cacheManagerNoRedis wcache of
                   None \<Rightarrow> []
                 | Some noRedis \<Rightarrow>
                     [PrimeCache (queryToString wcache wquery) resultFetched
                        ((wrap_options wcache opts)\<lparr>opt_cacheManager := Some noRedis\<rparr>)]))
        \<and> (redisClient wcache = None \<longrightarrow>
            wrap wcache wquery opts handler =
              (primeCache wcache (queryToString wcache wquery) resultFetched
                 (wrap_options wcache opts),
               [CacheManager_get (queryToString wcache wquery) (wrap_options wcache opts),
                FetchHandler wquery,
                PrimeCache (queryToString wcache wquery) resultFetched
                  (wrap_options wcache opts)]))"
    by (rule conjI)
qed

theorem get_priming_route_witness:
  "cacheManager_get redis_cache = Some (\<lambda>k options. Inr None)
   \<and> \<not> skips_cache redis_cache (get_options redis_cache (Handler fetchHandler_resolves))
   \<and> fetchHandler_resolves query1 = Inr queryRes
   \<and> redisClient redis_cache = Some redis_mock
   \<and> get redis_cache query1 (Handler fetchHandler_resolves)
       = (Inr queryRes,
          [CacheManager_get ''gcq:Company|name=Google''
             \<lparr>opt_ttl = Some (TtlNum 5), opt_cache = None, opt_cacheManager = None\<rparr>,
           FetchHandler query1,
           Redis_multi [SADD ''gcq:Company'' ''gcq:Company|name=Google'',
                        SET ''gcq:Company|name=Google'' ''[..., MORE_RESULTS]'']])
   \<and> get redis_cache_ttl10 query1 (Handler fetchHandler_resolves)
       = (Inr queryRes,
          [CacheManager_get ''gcq:Company|name=Google''
             \<lparr>opt_ttl = Some (TtlNum 5), opt_cache = None, opt_cacheManager = None\<rparr>,
           FetchHandler query1,
           PrimeCache ''gcq:Company|name=Google'' queryRes
             \<lparr>opt_ttl = Some (TtlNum 5), opt_cache = None, opt_cacheManager = None\<rparr>])
   \<and> redisOptions_ttl (wrap_options redis_cache None) = Inr (Some 0)
   \<and> snd (wrap redis_cache query1 None (Some fetchHandler_resolves))
       = [CacheManager_get ''gcq:Company|name=Google''
            \<lparr>opt_ttl = Some (TtlNum 0), opt_cache = None, opt_cacheManager = None\<rparr>,
          FetchHandler query1,
          Redis_multi [SADD ''gcq:Company'' ''gcq:Company|name=Google'',
                       SET ''gcq:Company|name=Google'' ''[..., MORE_RESULTS]'']]
   \<and> redisClient cache_mock = None
   \<and> wrap cache_mock query1 None (Some fetchHandler_resolves)
       = (Inr queryRes,
          [CacheManager_get ''gcq:Company|name=Google''
             \<lparr>opt_ttl = Some (TtlNum 5), opt_cache = None, opt_cacheManager = None\<rparr>,
           FetchHandler query1,
           PrimeCache ''gcq:Company|name=Google'' queryRes
             \<lparr>opt_ttl = Some (TtlNum 5), opt_cache = None, opt_cacheManager = None\<rparr>])"
  using get_priming_route
          [where cache = redis_cache and cm_get = "\<lambda>k options. Inr None"
             and args = "Handler fetchHandler_resolves" and query = query1
             and fetchResult = queryRes
             and stores = "\<lambda>storeName. if storeName = ''redis'' then Some (Some 0) else None"
             and t = 0
             and wcache = redis_cache and wcm_get = "\<lambda>k options. Inr None"
             and wquery = query1 and opts = None and handler = "Some fetchHandler_resolves"
             and resultFetched = queryRes]
        get_priming_route
          [where cache = redis_cache_ttl10 and cm_get = "\<lambda>k options. Inr None"
             and args = "Handler fetchHandler_resolves" and query = query1
             and fetchResult = queryRes
             and stores = "\<lambda>storeName. if storeName = ''redis'' then Some (Some 10) else None"
             and t = 10
             and wcache = cache_mock and wcm_get = "\<lambda>k options. Inr None"
             and wquery = query1 and opts = None and handler = "Some fetchHandler_resolves"
             and resultFetched = queryRes]
  by (simp add: example_defs redis_cache_ttl10_def get_defs wrap_defs)

text \<open>
  C1 as stated fails for \<open>wrap\<close>: with a redis client and a TTL of ten seconds for
  queries, a cache miss queues the \<^verbatim>\<open>sadd\<close> into the set of the kind and a \<^verbatim>\<open>setex\<close> of the
  payload, and \<^verbatim>\<open>primeCache\<close> is not called.
\<close>

theorem wrap_positive_ttl_counterexample:
  "redisOptions_ttl (wrap_options redis_cache_ttl10 None) = Inr (Some 10)
   \<and> ttlQueries redis_cache_ttl10 = Some 10
   \<and> wrap redis_cache_ttl10 query1 None (Some fetchHandler_resolves)
       = (Inr queryRes,
          [CacheManager_get ''gcq:Company|name=Google''
             \<lparr>opt_ttl = Some (TtlNum 10), opt_cache = None, opt_cacheManager = None\<rparr>,
           FetchHandler query1,
           Redis_multi [SADD ''gcq:Company'' ''gcq:Company|name=Google'',
                        SETEX ''gcq:Company|name=Google'' 10 ''[..., MORE_RESULTS]'']])"
  by (simp add: example_defs redis_cache_ttl10_def get_defs wrap_defs)

section \<open>The TTL of get\<close>

text \<open>
  C6. With exactly one store the TTL that \<open>get\<close> resolves is the number
  \<^verbatim>\<open>config.ttl.queries\<close>; with more than one store it is a function that, called with the
  name of a store that has an entry in \<^verbatim>\<open>config.ttl.stores\<close>, returns the \<^verbatim>\<open>queries\<close> TTL of
  that entry. This TTL is the \<^verbatim>\<open>ttl\<close> of the options that \<open>get\<close> hands to the cache
  manager.
\<close>

theorem get_ttl_number_or_resolver:
  "(length (config_stores cache) = 1 \<longrightarrow> get_ttl cache = TtlNum (config_ttl_queries cache))
   \<and> (1 < length (config_stores cache) \<longrightarrow>
        (\<exists>resolver. get_ttl cache = TtlFun resolver
           \<and> (\<forall>stores storeName t.
                 config_ttl_stores cache = Some stores \<and> stores storeName = Some t \<longrightarrow>
                 resolver storeName = Inr t)))
   \<and> opt_ttl (get_options cache args) = Some (get_ttl cache)
   \<and> (\<forall>cm_get. cacheManager_get cache = Some cm_get
         \<and> \<not> skips_cache cache (get_options cache args) \<longrightarrow>
         (\<exists>rest. snd (get cache query args)
            = CacheManager_get (keyToString cache query) (get_options cache args) # rest))"
proof (intro conjI)
  show "length (config_stores cache) = 1 \<longrightarrow> get_ttl cache = TtlNum (config_ttl_queries cache)"
    by (simp add: get_ttl_def)
  show "1 < length (config_stores cache) \<longrightarrow>
        (\<exists>resolver. get_ttl cache = TtlFun resolver
           \<and> (\<forall>stores storeName t.
                 config_ttl_stores cache = Some stores \<and> stores storeName = Some t \<longrightarrow>
                 resolver storeName = Inr t))"
    by (simp add: get_ttl_def stores_ttl_queries_def)
  show "opt_ttl (get_options cache args) = Some (get_ttl cache)"
    by (simp add: get_options_def)
  show "\<forall>cm_get. cacheManager_get cache = Some cm_get
         \<and> \<not> skips_cache cache (get_options cache args) \<longrightarrow>
         (\<exists>rest. snd (get cache query args)
            = CacheManager_get (keyToString cache query) (get_options cache args) # rest)"
    by (auto simp: get_def Let_def split: sum.splits)
qed

theorem get_ttl_number_or_resolver_witness:
  "length (config_stores cache_mock) = 1
   \<and> get_ttl cache_mock = TtlNum 5
   \<and> 1 < length (config_stores (cache_mock\<lparr>config_stores := [''memory'', ''redis''],
            config_ttl_stores := Some (\<lambda>storeName.
               if storeName = ''memory'' then Some (Some 1357)
               else if storeName = ''redis'' then Some (Some 2468) else None)\<rparr>))
   \<and> (\<exists>resolver.
         get_ttl (cache_mock\<lparr>config_stores := [''memory'', ''redis''],
            config_ttl_stores := Some (\<lambda>storeName.
               if storeName = ''memory'' then Some (Some 1357)
               else if storeName = ''redis'' then Some (Some 2468) else None)\<rparr>)
           = TtlFun resolver
         \<and> resolver ''memory'' = Inr (Some 1357) \<and> resolver ''redis'' = Inr (Some 2468))
   \<and> \<not> skips_cache cache_mock (get_options cache_mock (Handler fetchHandler_resolves))
   \<and> hd (snd (get cache_mock query1 (Handler fetchHandler_resolves)))
       = CacheManager_get ''gcq:Company|name=Google''
           \<lparr>opt_ttl = Some (TtlNum 5), opt_cache = None, opt_cacheManager = None\<rparr>"
  using get_ttl_number_or_resolver [where cache = cache_mock
          and args = "Handler fetchHandler_resolves" and query = query1]
        get_ttl_number_or_resolver
          [where cache = "cache_mock\<lparr>config_stores := [''memory'', ''redis''],
            config_ttl_stores := Some (\<lambda>storeName.
               if storeName = ''memory'' then Some (Some 1357)
               else if storeName = ''redis'' then Some (Some 2468) else None)\<rparr>"
             and args = "Handler fetchHandler_resolves" and query = query1]
  by (simp add: example_defs get_defs stores_ttl_queries_def)

section \<open>The kind a primed query is registered under\<close>

text \<open>
  C9, as amended. When \<open>get\<close> or \<open>wrap\<close> primes a fetched result through
  \<open>cacheQueryEntityKind\<close>, the commands queued are one \<^verbatim>\<open>sadd\<close> of the cache key into
  the set of the first kind of the query, \<^verbatim>\<open>query.kinds[0]\<close>, and the write of the
  payload: the key is registered under the first kind and under no other.
\<close>

theorem index_registers_first_kind:
  "(kinds query = kind # others
      \<and> cacheManager_get cache = Some cm_get
      \<and> \<not> skips_cache cache (get_options cache args)
      \<and> cm_get (keyToString cache query) (get_options cache args) = Inr None
      \<and> args_handler args query = Inr fetchResult
      \<and> redisClient cache = Some client
      \<and> ttlQueries cache = Some 0 \<longrightarrow>
        queued_commands (snd (get cache query args))
          = [SADD (config_cachePrefix_queries cache @ kind) (keyToString cache query),
             SET (keyToString cache query) (JSON_stringify cache fetchResult)])
   \<and> (kinds wquery = kind # others
      \<and> cacheManager_get wcache = Some wcm_get
      \<and> wcm_get (queryToString wcache wquery) (wrap_options wcache opts) = Inr None
      \<and> wrap_fetchHandler wquery handler wquery = Inr resultFetched
      \<and> redisClient wcache = Some wclient
      \<and> redisOptions_ttl (wrap_options wcache opts) = Inr redis_ttl \<longrightarrow>
        queued_commands (snd (wrap wcache wquery opts handler))
          = [SADD (config_cachePrefix_queries wcache @ kind) (queryToString wcache wquery),
             payload_command (queryToString wcache wquery) redis_ttl
               (JSON_stringify wcache (marshalKeys (fst resultFetched), snd resultFetched))])"
proof (rule conjI; rule impI)
  assume a: "kinds query = kind # others
      \<and> cacheManager_get cache = Some cm_get
      \<and> \<not> skips_cache cache (get_options cache args)
      \<and> cm_get (keyToString cache query) (get_options cache args) = Inr None
      \<and> args_handler args query = Inr fetchResult
      \<and> redisClient cache = Some client
      \<and> ttlQueries cache = Some 0"
  then have "snd (get_onResult cache query (args_handler args) (get_options cache args)
                   (keyToString cache query) None)
               = [FetchHandler query,
                  Redis_multi
                    [SADD (config_cachePrefix_queries cache @ kind) (keyToString cache query),
                     SET (keyToString cache query) (JSON_stringify cache fetchResult)]]"
    by (simp add: get_onResult_index concat_kind_def)
  with a show "queued_commands (snd (get cache query args))
          = [SADD (config_cachePrefix_queries cache @ kind) (keyToString cache query),
             SET (keyToString cache query) (JSON_stringify cache fetchResult)]"
    by (simp add: get_read)
next
  assume a: "kinds wquery = kind # others
      \<and> cacheManager_get wcache = Some wcm_get
      \<and> wcm_get (queryToString wcache wquery) (wrap_options wcache opts) = Inr None
      \<and> wrap_fetchHandler wquery handler wquery = Inr resultFetched
      \<and> redisClient wcache = Some wclient
      \<and> redisOptions_ttl (wrap_options wcache opts) = Inr redis_ttl"
  then have "queued_commands (snd (wrap_onResult wcache wquery (wrap_fetchHandler wquery handler)
                   (wrap_options wcache opts) (queryToString wcache wquery) None))
          = [SADD (config_cachePrefix_queries wcache @ kind) (queryToString wcache wquery),
             payload_command (queryToString wcache wquery) redis_ttl
               (JSON_stringify wcache (marshalKeys (fst resultFetched), snd resultFetched))]"
    by (simp add: wrap_onResult_index kind_arg_of_def)
  with a show "queued_commands (snd (wrap wcache wquery opts handler))
          = [SADD (config_cachePrefix_queries wcache @ kind) (queryToString wcache wquery),
             payload_command (queryToString wcache wquery) redis_ttl
               (JSON_stringify wcache (marshalKeys (fst resultFetched), snd resultFetched))]"
    by (simp add: wrap_read)
qed

theorem index_registers_first_kind_witness:
  "kinds query2 = ''Company'' # [''User'']
   \<and> cacheManager_get redis_cache = Some (\<lambda>k options. Inr None)
   \<and> \<not> skips_cache redis_cache (get_options redis_cache (Handler fetchHandler_resolves))
   \<and> fetchHandler_resolves query2 = Inr queryRes
   \<and> redisClient redis_cache = Some redis_mock
   \<and> ttlQueries redis_cache = Some 0
   \<and> redisOptions_ttl (wrap_options redis_cache None) = Inr (Some 0)
   \<and> queued_commands (snd (get redis_cache query2 (Handler fetchHandler_resolves)))
       = [SADD ''gcq:Company'' ''gcq:CompanyUser|limit=2'',
          SET ''gcq:CompanyUser|limit=2'' ''[..., MORE_RESULTS]'']
   \<and> queued_commands (snd (wrap redis_cache query2 None (Some fetchHandler_resolves)))
       = [SADD ''gcq:Company'' ''gcq:CompanyUser|limit=2'',
          SET ''gcq:CompanyUser|limit=2'' ''[..., MORE_RESULTS]'']"
  using index_registers_first_kind [where query = query2 and kind = "''Company''"
      and others = "[''User'']" and cache = redis_cache and cm_get = "\<lambda>k options. Inr None"
      and args = "Handler fetchHandler_resolves" and fetchResult = queryRes
      and client = redis_mock and wquery = query2 and wcache = redis_cache
      and wcm_get = "\<lambda>k options. Inr None" and opts = None
      and handler = "Some fetchHandler_resolves" and resultFetched = queryRes
      and wclient = redis_mock and redis_ttl = "Some 0"]
  by (simp add: example_defs query2_def get_defs wrap_defs)

text \<open>
  C9 as stated fails for a query that targets two kinds: \<open>query2\<close> targets
  \<^verbatim>\<open>Company\<close> and \<^verbatim>\<open>User\<close>, and neither \<open>wrap\<close> nor \<open>get\<close> queues a \<^verbatim>\<open>sadd\<close> into the
  set of \<^verbatim>\<open>User\<close>.
\<close>

theorem multi_kind_query_counterexample:
  "kinds query2 = [''Company'', ''User'']
   \<and> queued_commands (snd (wrap redis_cache query2 None (Some fetchHandler_resolves)))
       = [SADD ''gcq:Company'' ''gcq:CompanyUser|limit=2'',
          SET ''gcq:CompanyUser|limit=2'' ''[..., MORE_RESULTS]'']
   \<and> SADD ''gcq:User'' ''gcq:CompanyUser|limit=2''
       \<notin> set (queued_commands (snd (wrap redis_cache query2 None (Some fetchHandler_resolves))))
   \<and> queued_commands (snd (get redis_cache query2 (Handler fetchHandler_resolves)))
       = [SADD ''gcq:Company'' ''gcq:CompanyUser|limit=2'',
          SET ''gcq:CompanyUser|limit=2'' ''[..., MORE_RESULTS]'']
   \<and> SADD ''gcq:User'' ''gcq:CompanyUser|limit=2''
       \<notin> set (queued_commands (snd (get redis_cache query2 (Handler fetchHandler_resolves))))"
  by (simp add: example_defs query2_def get_defs wrap_defs)

section \<open>The entity-kind index of src/lib/queries.js\<close>

text \<open>
  C7. Without a redis client, \<open>cacheQueryEntityKind\<close> and \<open>cleanQueriesEntityKind\<close>
  both reject with the error \<^verbatim>\<open>No Redis Client found.\<close> and make no collaborator call.
\<close>

theorem no_redis_client_rejects:
  "redisClient cache = None \<Longrightarrow>
   cacheQueryEntityKind cache queryKey val entityKind ttl
     = (Inl (Error ''No Redis Client found.''), [])
   \<and> cleanQueriesEntityKind cache entityKinds
     = (Inl (Error ''No Redis Client found.''), [])"
  by (simp add: cacheQueryEntityKind_def cleanQueriesEntityKind_def)

theorem no_redis_client_rejects_witness:
  "redisClient cache_mock = None
   \<and> cacheQueryEntityKind cache_mock ''gcq:Company|name=Google'' queryRes (One_kind ''User'') None
       = (Inl (Error ''No Redis Client found.''), [])
   \<and> cleanQueriesEntityKind cache_mock (One_kind ''User'')
       = (Inl (Error ''No Redis Client found.''), [])"
  using no_redis_client_rejects [of cache_mock "''gcq:Company|name=Google''" queryRes
          "One_kind ''User''" None "One_kind ''User''"]
  by (simp add: cache_mock_def)

text \<open>
  C3, as amended. With a redis client, \<open>cacheQueryEntityKind\<close> makes one collaborator
  call, a \<^verbatim>\<open>multi\<close> that holds a \<^verbatim>\<open>sadd\<close> of the cache key into the set of every kind of
  the list, followed by the write of the serialized payload under the cache key: \<^verbatim>\<open>setex\<close>
  with the TTL when the options give a TTL other than 0, and \<^verbatim>\<open>set\<close>, without expiry, when
  they give none or give 0. The outcome is that of the transaction.
\<close>

theorem cacheQueryEntityKind_transaction:
  "redisClient cache = Some client \<Longrightarrow>
   \<exists>write.
     cacheQueryEntityKind cache queryKey val (Kind_list entityKinds) ttl
       = (multi_exec client
            (map (\<lambda>kind. SADD (config_cachePrefix_queries cache @ kind) queryKey) entityKinds
             @ [write]),
          [Redis_multi
            (map (\<lambda>kind. SADD (config_cachePrefix_queries cache @ kind) queryKey) entityKinds
             @ [write])])
     \<and> (\<forall>t. ttl = Some t \<and> t \<noteq> 0 \<longrightarrow> write = SETEX queryKey t (JSON_stringify cache val))
     \<and> (ttl = None \<or> ttl = Some 0 \<longrightarrow> write = SET queryKey (JSON_stringify cache val))"
  by (auto simp: cacheQueryEntityKind_def payload_command_def Let_def comp_def)

theorem cacheQueryEntityKind_transaction_witness:
  "redisClient redis_cache = Some redis_mock
   \<and> cacheQueryEntityKind redis_cache ''gcq:Company|name=Google'' queryRes
         (Kind_list [''User'', ''Task'', ''Post'']) None
       = (Inr [Integer_reply 1, Integer_reply 1, Integer_reply 1, Status_reply ''OK''],
          [Redis_multi [SADD ''gcq:User'' ''gcq:Company|name=Google'',
                        SADD ''gcq:Task'' ''gcq:Company|name=Google'',
                        SADD ''gcq:Post'' ''gcq:Company|name=Google'',
                        SET ''gcq:Company|name=Google'' ''[..., MORE_RESULTS]'']])
   \<and> cacheQueryEntityKind redis_cache ''gcq:Company|name=Google'' queryRes
         (Kind_list [''User'']) (Some 10)
       = (Inr [Integer_reply 1, Status_reply ''OK''],
          [Redis_multi [SADD ''gcq:User'' ''gcq:Company|name=Google'',
                        SETEX ''gcq:Company|name=Google'' 10 ''[..., MORE_RESULTS]'']])"
  using cacheQueryEntityKind_transaction [of redis_cache redis_mock
          "''gcq:Company|name=Google''" queryRes "[''User'', ''Task'', ''Post'']" None]
        cacheQueryEntityKind_transaction [of redis_cache redis_mock
          "''gcq:Company|name=Google''" queryRes "[''User'']" "Some 10"]
  by (simp add: example_defs cacheQueryEntityKind_def payload_command_def)

text \<open>
  C3 as stated fails for options that give the TTL 0: \<^verbatim>\<open>options.ttl\<close> is tested for
  truthiness, so the payload is written with \<^verbatim>\<open>set\<close> and no \<^verbatim>\<open>setex\<close> is queued.
\<close>

theorem zero_ttl_counterexample:
  "snd (cacheQueryEntityKind redis_cache ''gcq:Company|name=Google'' queryRes
          (Kind_list [''Company'']) (Some 0))
     = [Redis_multi [SADD ''gcq:Company'' ''gcq:Company|name=Google'',
                     SET ''gcq:Company|name=Google'' ''[..., MORE_RESULTS]'']]
   \<and> SETEX ''gcq:Company|name=Google'' 0 ''[..., MORE_RESULTS]''
       \<notin> set (queued_commands
               (snd (cacheQueryEntityKind redis_cache ''gcq:Company|name=Google'' queryRes
                       (Kind_list [''Company'']) (Some 0))))"
  by (simp add: example_defs cacheQueryEntityKind_def payload_command_def)

text \<open>The deduplicated array keeps every value once, and the reduce appends the arrays.\<close>

lemma set_foldl_Set_add: "set (foldl Set_add acc xs) = set acc \<union> set xs"
  by (induction xs arbitrary: acc) (auto simp: Set_add_def)

lemma distinct_foldl_Set_add: "distinct acc \<Longrightarrow> distinct (foldl Set_add acc xs)"
  by (induction xs arbitrary: acc) (auto simp: Set_add_def)

lemma set_new_Set: "set (new_Set xs) = set xs"
  by (simp add: new_Set_def set_foldl_Set_add)

lemma distinct_new_Set: "distinct (new_Set xs)"
  by (simp add: new_Set_def distinct_foldl_Set_add)

lemma setsMembers_arrays:
  "\<forall>r\<in>set response. r = Null_reply \<or> (\<exists>members. r = Array_reply members) \<Longrightarrow>
   setsMembers acc response = Inr (acc @ concat (map reply_members response))"
  by (induction response arbitrary: acc) auto

text \<open>
  C2. With a redis client, \<open>cleanQueriesEntityKind\<close> queues one \<^verbatim>\<open>multi\<close> with the
  \<^verbatim>\<open>smembers\<close> of the set of every requested kind. When the transaction answers with a
  \<^verbatim>\<open>null\<close> or an array for each set, the function then calls \<^verbatim>\<open>del\<close> once, with a
  duplicate-free array that holds exactly the members of all the sets and the names of the
  sets, and its outcome is that of \<^verbatim>\<open>del\<close>: the count the store reports.
\<close>

theorem cleanQueriesEntityKind_deletes_union:
  assumes "redisClient cache = Some client"
    and "multi_exec client
           (map (\<lambda>kind. SMEMBERS (config_cachePrefix_queries cache @ kind)) entityKinds)
         = Inr response"
    and "\<forall>r\<in>set response. r = Null_reply \<or> (\<exists>members. r = Array_reply members)"
  shows "\<exists>keysToDelete.
           cleanQueriesEntityKind cache (Kind_list entityKinds)
             = (del client keysToDelete,
                [Redis_multi
                   (map (\<lambda>kind. SMEMBERS (config_cachePrefix_queries cache @ kind)) entityKinds),
                 Redis_del keysToDelete])
           \<and> distinct keysToDelete
           \<and> set keysToDelete
               = (\<Union>r\<in>set response. set (reply_members r))
                 \<union> (\<lambda>kind. config_cachePrefix_queries cache @ kind) ` set entityKinds"
proof -
  let ?sets = "map (\<lambda>kind. config_cachePrefix_queries cache @ kind) entityKinds"
  let ?keys = "new_Set (concat (map reply_members response) @ ?sets)"
  have cmds: "map SMEMBERS ?sets
                = map (\<lambda>kind. SMEMBERS (config_cachePrefix_queries cache @ kind)) entityKinds"
    by (simp add: comp_def)
  have members: "setsMembers [] response = Inr (concat (map reply_members response))"
    using setsMembers_arrays [OF assms(3), of "[]"] by simp
  have exec: "multi_exec client (map SMEMBERS ?sets) = Inr response"
    using assms(2) unfolding cmds .
  have "cleanQueriesEntityKind cache (Kind_list entityKinds)
          = (del client ?keys, [Redis_multi (map SMEMBERS ?sets), Redis_del ?keys])"
    using assms(1) exec members
    by (simp add: cleanQueriesEntityKind_def Let_def del: map_map)
  then have "cleanQueriesEntityKind cache (Kind_list entityKinds)
          = (del client ?keys,
             [Redis_multi
                (map (\<lambda>kind. SMEMBERS (config_cachePrefix_queries cache @ kind)) entityKinds),
              Redis_del ?keys])"
    unfolding cmds .
  moreover have "distinct ?keys"
    by (rule distinct_new_Set)
  moreover have "set ?keys
               = (\<Union>r\<in>set response. set (reply_members r))
                 \<union> (\<lambda>kind. config_cachePrefix_queries cache @ kind) ` set entityKinds"
    by (simp add: set_new_Set)
  ultimately show ?thesis by blast
qed

theorem cleanQueriesEntityKind_deletes_union_witness:
  "redisClient redis_cache = Some redis_mock
   \<and> multi_exec redis_mock
        (map (\<lambda>kind. SMEMBERS (config_cachePrefix_queries redis_cache @ kind))
           [''User'', ''Task'', ''User''])
       = Inr [Array_reply [''abc'', ''def''], Null_reply, Array_reply [''abc'', ''def'']]
   \<and> cleanQueriesEntityKind redis_cache (Kind_list [''User'', ''Task'', ''User''])
       = (Inr 7,
          [Redis_multi [SMEMBERS ''gcq:User'', SMEMBERS ''gcq:Task'', SMEMBERS ''gcq:User''],
           Redis_del [''abc'', ''def'', ''gcq:User'', ''gcq:Task'']])"
  using cleanQueriesEntityKind_deletes_union [of redis_cache redis_mock
          "[''User'', ''Task'', ''User'']"
          "[Array_reply [''abc'', ''def''], Null_reply, Array_reply [''abc'', ''def'']]"]
  by (simp add: example_defs cleanQueriesEntityKind_def new_Set_def Set_add_def)

section \<open>The index functions of src/unnamed/part_000\<close>

text \<open>
  This revision has no guard: without a redis client both functions fail with the
  TypeError of the call on \<^verbatim>\<open>undefined\<close>, before any command. With a client,
  \<open>cleanQueriesEntityKind_p0\<close> cleans its one kind with a \<^verbatim>\<open>smembers\<close> and a \<^verbatim>\<open>del\<close>.
\<close>

lemma p0_without_redis_client:
  "redisClient cache = None \<Longrightarrow>
   cacheQueryEntityKind_p0 cache queryKey val entityKind
     = (Inl (TypeError ''cache.redisClient is undefined''), [])
   \<and> cleanQueriesEntityKind_p0 cache kind
     = (Inl (TypeError ''cache.redisClient is undefined''), [])"
  by (simp add: cacheQueryEntityKind_p0_def cleanQueriesEntityKind_p0_def)

lemma cleanQueriesEntityKind_p0_deletes:
  "redisClient cache = Some client \<Longrightarrow>
   smembers client (config_cachePrefix_queries cache @ kind) = Inr (Some members) \<Longrightarrow>
   cleanQueriesEntityKind_p0 cache kind
     = (del client (members @ [config_cachePrefix_queries cache @ kind]),
        [Redis_smembers (config_cachePrefix_queries cache @ kind),
         Redis_del (members @ [config_cachePrefix_queries cache @ kind])])"
  by (simp add: cleanQueriesEntityKind_p0_def Let_def)

end
